theory Spec2Isabelle
  imports Main
begin

section \<open>Document trees and errors\<close>

text \<open>
  The module \<^verbatim>\<open>beapy/bea_responses.py\<close> works on the parsed JSON document of a BEA
  API response. A document is a tree of dictionaries, lists and scalars. A Python
  dictionary keeps its keys in insertion order and the locator iterates over them in
  that order, so a dictionary is an association list. Strings are ASCII strings.
  JSON booleans and non-integer numbers are not represented; the locator treats them
  like the other scalars.
\<close>

datatype json =
    JDict "(string \<times> json) list"
  | JList "json list"
  | JStr string
  | JNum int
  | JNull

text \<open>
  Exceptions are values. Each constructor but the last is a Python exception class and
  carries the argument the exception was raised with (for \<open>KeyError\<close> the missing key or
  the message, a Python object).

  \<open>OutsideModel\<close> is not an exception of the program. The module hands some values to
  libraries whose behaviour this development follows only on part of their domain
  (\<^verbatim>\<open>ast.literal_eval\<close>, pandas on cells that are not strings, float64 arithmetic,
  the \<^verbatim>\<open>repr\<close> of containers). On any other input the model answers \<open>OutsideModel\<close>
  and says nothing about what the code does there.
\<close>

datatype error =
    KeyError json
  | BEAAPIError string
  | ValueError string
  | TypeError string
  | AttributeError string
  | IndexError string
  | NotImplementedError string
  | OutsideModel string

section \<open>The field locator\<close>

text \<open>
  \<^verbatim>\<open>iterable_not_str(obj)\<close>: an iterable that is not a string. The locator asks it of
  objects that are no dictionaries (the equations of \<open>getitem_any_level\<close> for lists and
  scalars follow its answer), and \<^verbatim>\<open>_set_unique_index\<close> asks it of the series
  identifiers (the two constructors of \<open>identifiers\<close> below).
\<close>

fun iterable_not_str :: "json \<Rightarrow> bool" where
  "iterable_not_str (JDict _) = True"
| "iterable_not_str (JList _) = True"
| "iterable_not_str (JStr _) = False"
| "iterable_not_str (JNum _) = False"
| "iterable_not_str JNull = False"

text \<open>\<^verbatim>\<open>dct.pop(key)\<close> on the association list of a dictionary.\<close>

definition dict_pop :: "string \<Rightarrow> (string \<times> json) list \<Rightarrow> (string \<times> json) list" where
  "dict_pop key kvs = filter (\<lambda>kv. fst kv \<noteq> key) kvs"

text \<open>
  \<^verbatim>\<open>getitem_any_level(dct, key, pop)\<close>. With \<^verbatim>\<open>pop=True\<close> the source removes the
  entry from the dictionary that holds it, in place; the model returns the value
  together with the document after the call (the same document when nothing was
  removed).

  \<^item> \<^verbatim>\<open>dct.keys()\<close> raises AttributeError for anything but a dictionary. Then, for a
    non-string iterable, the loop \<^verbatim>\<open>for d in dct: return getitem_any_level(d, key, pop)\<close>
    returns (or raises) in its first iteration; an empty list, or a scalar, falls
    through to \<^verbatim>\<open>raise KeyError(key)\<close>.
  \<^item> For a dictionary that has the key, the value is returned (and popped).
  \<^item> Otherwise \<open>getitem_values\<close> is the loop over the dictionary's values: the first
    value in which the search succeeds gives the result, a KeyError from a value is
    caught and the loop goes on, any other exception propagates, and \<open>None\<close> says that
    the loop ran to its end.
\<close>

fun getitem_any_level :: "json \<Rightarrow> string \<Rightarrow> bool \<Rightarrow> error + json \<times> json"
  and getitem_values ::
    "(string \<times> json) list \<Rightarrow> string \<Rightarrow> bool \<Rightarrow> (error + json \<times> (string \<times> json) list) option"
where
  "getitem_any_level (JDict kvs) key pop =
     (case map_of kvs key of
        Some v \<Rightarrow> if pop then Inr (v, JDict (dict_pop key kvs)) else Inr (v, JDict kvs)
      | None \<Rightarrow>
          (case getitem_values kvs key pop of
             Some (Inr (v, kvs')) \<Rightarrow> Inr (v, JDict kvs')
           | Some (Inl e) \<Rightarrow> Inl e
           | None \<Rightarrow>
               Inl (KeyError (JStr (''key '' @ key @ '' was not found at any level of provided dict'')))))"
| "getitem_any_level (JList []) key pop = Inl (KeyError (JStr key))"
| "getitem_any_level (JList (d # ds)) key pop =
     (case getitem_any_level d key pop of
        Inr (v, d') \<Rightarrow> Inr (v, JList (d' # ds))
      | Inl e \<Rightarrow> Inl e)"
| "getitem_any_level (JStr s) key pop = Inl (KeyError (JStr key))"
| "getitem_any_level (JNum n) key pop = Inl (KeyError (JStr key))"
| "getitem_any_level JNull key pop = Inl (KeyError (JStr key))"
| "getitem_values [] key pop = None"
| "getitem_values ((k, sub_dict) # rest) key pop =
     (case getitem_any_level sub_dict key pop of
        Inr (v, sub') \<Rightarrow> Some (Inr (v, (k, sub') # rest))
      | Inl (KeyError _) \<Rightarrow>
          (case getitem_values rest key pop of
             Some (Inr (v, rest')) \<Rightarrow> Some (Inr (v, (k, sub_dict) # rest'))
           | Some (Inl e) \<Rightarrow> Some (Inl e)
           | None \<Rightarrow> None)
      | Inl e \<Rightarrow> Some (Inl e))"

section \<open>Python built-ins used by the module\<close>

text \<open>Sequencing of steps that may raise: the first exception ends the computation.\<close>

fun err_bind :: "error + 'a \<Rightarrow> ('a \<Rightarrow> error + 'b) \<Rightarrow> error + 'b" where
  "err_bind (Inl e) f = Inl e"
| "err_bind (Inr x) f = f x"

text \<open>
  Decimal numerals: \<^verbatim>\<open>str(n)\<close> for an integer, and the value of a digit string.
  \<open>digits_of\<close> is applied to numbers that are not negative.
\<close>

function digits_of :: "int \<Rightarrow> string" where
  "digits_of n =
     (if n < 10 then [''0123456789'' ! nat n]
      else digits_of (n div 10) @ [''0123456789'' ! nat (n mod 10)])"
  by pat_completeness auto
termination
  by (relation "measure nat") auto

declare digits_of.simps [simp del]

definition show_int :: "int \<Rightarrow> string" where
  "show_int i = (if i < 0 then CHR ''-'' # digits_of (- i) else digits_of i)"

definition is_digit :: "char \<Rightarrow> bool" where
  "is_digit c = (c \<in> set ''0123456789'')"

definition digit_val :: "char \<Rightarrow> int" where
  "digit_val c = int (length (takeWhile (\<lambda>d. d \<noteq> c) ''0123456789''))"

definition int_of_digits :: "string \<Rightarrow> int" where
  "int_of_digits s = foldl (\<lambda>acc c. 10 * acc + digit_val c) 0 s"

text \<open>
  \<^verbatim>\<open>str(x)\<close> as the f-strings of the module apply it: a string is itself, an integer
  its numeral, \<^verbatim>\<open>None\<close> the word None. The text of a list or dictionary is its
  \<^verbatim>\<open>repr\<close>, which is not modelled.
\<close>

fun py_str :: "json \<Rightarrow> error + string" where
  "py_str (JStr s) = Inr s"
| "py_str (JNum n) = Inr (show_int n)"
| "py_str JNull = Inr ''None''"
| "py_str (JList _) = Inl (OutsideModel ''repr of a list'')"
| "py_str (JDict _) = Inl (OutsideModel ''repr of a dict'')"

text \<open>\<^verbatim>\<open>s.lower()\<close> on an ASCII string.\<close>

definition lower_char :: "char \<Rightarrow> char" where
  "lower_char c =
     (case map_of (zip ''ABCDEFGHIJKLMNOPQRSTUVWXYZ'' ''abcdefghijklmnopqrstuvwxyz'') c of
        Some d \<Rightarrow> d
      | None \<Rightarrow> c)"

definition lower :: "string \<Rightarrow> string" where
  "lower s = map lower_char s"

text \<open>\<^verbatim>\<open>s.isnumeric()\<close> on an ASCII string: not empty, and every character a digit.\<close>

definition isnumeric :: "string \<Rightarrow> bool" where
  "isnumeric s = (s \<noteq> [] \<and> list_all is_digit s)"

text \<open>
  \<^verbatim>\<open>for x in obj\<close>: a list yields its elements, a dictionary its keys, a string its
  characters; any other object is not iterable.
\<close>

fun py_iter :: "json \<Rightarrow> error + json list" where
  "py_iter (JList xs) = Inr xs"
| "py_iter (JDict kvs) = Inr (map (\<lambda>kv. JStr (fst kv)) kvs)"
| "py_iter (JStr s) = Inr (map (\<lambda>c. JStr [c]) s)"
| "py_iter (JNum n) = Inl (TypeError ''int object is not iterable'')"
| "py_iter JNull = Inl (TypeError ''NoneType object is not iterable'')"

text \<open>\<^verbatim>\<open>obj[name]\<close> with a string subscript.\<close>

fun py_getitem :: "json \<Rightarrow> string \<Rightarrow> error + json" where
  "py_getitem (JDict kvs) name =
     (case map_of kvs name of Some v \<Rightarrow> Inr v | None \<Rightarrow> Inl (KeyError (JStr name)))"
| "py_getitem (JList xs) name = Inl (TypeError ''list indices must be integers or slices, not str'')"
| "py_getitem (JStr s) name = Inl (TypeError ''string indices must be integers'')"
| "py_getitem (JNum n) name = Inl (TypeError ''int object is not subscriptable'')"
| "py_getitem JNull name = Inl (TypeError ''NoneType object is not subscriptable'')"

text \<open>
  Dictionaries built by the module are association lists in insertion order, keyed by
  Python objects. Lists and dictionaries are unhashable and cannot be keys;
  \<^verbatim>\<open>d[k] = v\<close> replaces the value of a key already present and appends a new key.
\<close>

fun hashable :: "json \<Rightarrow> bool" where
  "hashable (JDict _) = False"
| "hashable (JList _) = False"
| "hashable _ = True"

fun dict_set :: "'k \<Rightarrow> 'v \<Rightarrow> ('k \<times> 'v) list \<Rightarrow> ('k \<times> 'v) list" where
  "dict_set k v [] = [(k, v)]"
| "dict_set k v ((k', v') # rest) =
     (if k' = k then (k, v) # rest else (k', v') # dict_set k v rest)"

definition dict_setitem ::
  "json \<Rightarrow> 'v \<Rightarrow> (json \<times> 'v) list \<Rightarrow> error + (json \<times> 'v) list" where
  "dict_setitem k v d =
     (if hashable k then Inr (dict_set k v d) else Inl (TypeError ''unhashable type''))"

definition dict_getitem :: "(json \<times> 'v) list \<Rightarrow> json \<Rightarrow> error + 'v" where
  "dict_getitem d k =
     (if \<not> hashable k then Inl (TypeError ''unhashable type'')
      else case map_of d k of Some v \<Rightarrow> Inr v | None \<Rightarrow> Inl (KeyError k))"

text \<open>
  \<^verbatim>\<open>int(x)\<close>. For a string the model answers on two classes only: a plain numeral
  (digits with an optional sign) has its value, and a string with a visible character
  that is no digit, sign or underscore is rejected with ValueError. The remaining
  strings (surrounding whitespace, underscores between digits) are left to Python.
\<close>

definition int_literal :: "string \<Rightarrow> int option" where
  "int_literal s =
     (case s of
        [] \<Rightarrow> None
      | c # cs \<Rightarrow>
          if c = CHR ''-'' \<and> isnumeric cs then Some (- int_of_digits cs)
          else if isnumeric s then Some (int_of_digits s)
          else None)"

definition visible :: "char \<Rightarrow> bool" where
  "visible c = (33 \<le> (of_char c :: nat) \<and> (of_char c :: nat) \<le> 126)"

fun py_int :: "json \<Rightarrow> error + int" where
  "py_int (JNum n) = Inr n"
| "py_int (JStr s) =
     (case int_literal s of
        Some n \<Rightarrow> Inr n
      | None \<Rightarrow>
          if list_ex (\<lambda>c. visible c \<and> \<not> is_digit c \<and> c \<notin> set ''+-_'') s
          then Inl (ValueError ''invalid literal for int() with base 10'')
          else Inl (OutsideModel ''int() of a string that is not a plain numeral''))"
| "py_int JNull = Inl (TypeError ''int() argument must be a string or a number'')"
| "py_int (JList _) = Inl (TypeError ''int() argument must be a string or a number'')"
| "py_int (JDict _) = Inl (TypeError ''int() argument must be a string or a number'')"

section \<open>The dataset tables\<close>

text \<open>
  The request of a response is the dictionary of its parameters. The result of
  \<^verbatim>\<open>series_identifiers\<close> is one column name or a list of column names.
\<close>

type_synonym request = "(json \<times> json) list"

datatype identifiers = Single string | Multi "string list"

text \<open>\<^verbatim>\<open>self.request['DATASETNAME'].lower()\<close>, the first line of both properties.\<close>

definition dataset_name :: "request \<Rightarrow> error + string" where
  "dataset_name request =
     err_bind (dict_getitem request (JStr ''DATASETNAME'')) (\<lambda>name.
       case name of
         JStr s \<Rightarrow> Inr (lower s)
       | _ \<Rightarrow> Inl (AttributeError ''object has no attribute lower''))"

definition series_identifiers :: "request \<Rightarrow> error + identifiers" where
  "series_identifiers request =
     err_bind (dataset_name request) (\<lambda>dataset.
       if dataset \<in> set [''nipa'', ''niunderlyingdetail'', ''fixedassets'']
         then Inr (Single ''SeriesCode'')
       else if dataset \<in> set [''gdpbyindustry'', ''underlyinggdpbyindustry'']
         then Inr (Single ''Industry'')
       else if dataset \<in> set [''ita'', ''iip'', ''intlservtrade'']
         then Inr (Single ''TimeSeriesId'')
       else if dataset = ''mne''
         then Inr (Multi [''SeriesID'', ''RowCode'', ''ColumnCode''])
       else if dataset = ''inputoutput''
         then Inr (Multi [''RowCode'', ''ColCode''])
       else if dataset = ''regional''
         then Inr (Single ''GeoFips'')
       else Inl (ValueError (''no series identifier for '' @ dataset)))"

definition period_identifier :: "request \<Rightarrow> error + string" where
  "period_identifier request =
     err_bind (dataset_name request) (\<lambda>dataset.
       if dataset \<in> set [''nipa'', ''niunderlyingdetail'', ''fixedassets'',
                          ''ita'', ''iip'', ''intlservtrade'', ''regional'']
         then Inr ''TimePeriod''
       else if dataset \<in> set [''mne'', ''underlyinggdpbyindustry'', ''gdpbyindustry'',
                               ''inputoutput'']
         then Inr ''Year''
       else Inl (ValueError (''no valid period identifier for '' @ dataset)))"

section \<open>Tables\<close>

text \<open>
  A pandas DataFrame is a row index and named columns of equal length. The model
  follows pandas on the cells that BEA observation rows give: strings, the missing
  value \<open>NaN\<close>, and the 64-bit integers that \<^verbatim>\<open>pd.to_numeric\<close> makes of numerals.
  A column that pandas would turn into float64 is outside the model.
\<close>

datatype cell = CStr string | CInt int | NaN

record frame =
  index :: "cell list"
  columns :: "(string \<times> cell list) list"

text \<open>The elements of a list in the order of their first occurrence.\<close>

definition uniq :: "'a list \<Rightarrow> 'a list" where
  "uniq xs = fold (\<lambda>x acc. if x \<in> set acc then acc else acc @ [x]) xs []"

text \<open>
  \<^verbatim>\<open>pd.DataFrame(data)\<close> for a list of dictionaries with string values: the columns
  are the keys in the order in which the rows first mention them, a row that lacks a
  key has \<open>NaN\<close> there, and the index counts the rows.
\<close>

fun row_of :: "json \<Rightarrow> (string \<times> string) list option" where
  "row_of (JDict kvs) =
     (if list_all (\<lambda>kv. case snd kv of JStr _ \<Rightarrow> True | _ \<Rightarrow> False) kvs
      then Some (map (\<lambda>kv. (fst kv, case snd kv of JStr s \<Rightarrow> s | _ \<Rightarrow> [])) kvs)
      else None)"
| "row_of _ = None"

definition frame_of_rows :: "(string \<times> string) list list \<Rightarrow> frame" where
  "frame_of_rows rows =
     \<lparr>index = map (\<lambda>i. CInt (int i)) [0..<length rows],
      columns = map (\<lambda>c. (c, map (\<lambda>r. case map_of r c of Some s \<Rightarrow> CStr s | None \<Rightarrow> NaN) rows))
                    (uniq (concat (map (map fst) rows)))\<rparr>"

definition DataFrame :: "json \<Rightarrow> error + frame" where
  "DataFrame data =
     (case data of
        JList rows \<Rightarrow>
          (case those (map row_of rows) of
             Some rs \<Rightarrow> Inr (frame_of_rows rs)
           | None \<Rightarrow> Inl (OutsideModel ''DataFrame of rows that are not dictionaries of strings''))
      | _ \<Rightarrow> Inl (OutsideModel ''DataFrame of an object that is not a list''))"

text \<open>
  \<^verbatim>\<open>df[c]\<close> raises KeyError for a missing column, \<^verbatim>\<open>df.c\<close> raises AttributeError;
  \<^verbatim>\<open>df[c] = col\<close> replaces a column in place or appends it; \<^verbatim>\<open>df.loc[:, cs]\<close>
  selects columns in the order asked for and raises KeyError when one is missing.
\<close>

definition frame_getitem :: "frame \<Rightarrow> string \<Rightarrow> error + cell list" where
  "frame_getitem df c =
     (case map_of (columns df) c of Some col \<Rightarrow> Inr col | None \<Rightarrow> Inl (KeyError (JStr c)))"

definition frame_getattr :: "frame \<Rightarrow> string \<Rightarrow> error + cell list" where
  "frame_getattr df c =
     (case map_of (columns df) c of
        Some col \<Rightarrow> Inr col
      | None \<Rightarrow> Inl (AttributeError (''DataFrame object has no attribute '' @ c)))"

definition frame_setitem :: "frame \<Rightarrow> string \<Rightarrow> cell list \<Rightarrow> frame" where
  "frame_setitem df c col = df\<lparr>columns := dict_set c col (columns df)\<rparr>"

definition frame_drop :: "frame \<Rightarrow> string list \<Rightarrow> frame" where
  "frame_drop df cs = df\<lparr>columns := filter (\<lambda>kv. fst kv \<notin> set cs) (columns df)\<rparr>"

fun loc_columns :: "frame \<Rightarrow> string list \<Rightarrow> error + (string \<times> cell list) list" where
  "loc_columns df [] = Inr []"
| "loc_columns df (c # cs) =
     err_bind (frame_getitem df c) (\<lambda>col.
     err_bind (loc_columns df cs) (\<lambda>rest. Inr ((c, col) # rest)))"

definition frame_loc :: "frame \<Rightarrow> string list \<Rightarrow> error + frame" where
  "frame_loc df cs = err_bind (loc_columns df cs) (\<lambda>cols. Inr (df\<lparr>columns := cols\<rparr>))"

text \<open>
  \<^verbatim>\<open>caller.str.cat(others, sep=sep)\<close> joins two columns row by row; a row with a missing
  value on either side is missing in the result. The model follows pandas when both
  columns hold strings (at least one) and missing values only.
\<close>

fun str_cat_cell :: "string \<Rightarrow> cell \<Rightarrow> cell \<Rightarrow> cell" where
  "str_cat_cell sep (CStr a) (CStr b) = CStr (a @ sep @ b)"
| "str_cat_cell sep _ _ = NaN"

definition is_CStr :: "cell \<Rightarrow> bool" where
  "is_CStr c = (case c of CStr _ \<Rightarrow> True | _ \<Rightarrow> False)"

definition is_CInt :: "cell \<Rightarrow> bool" where
  "is_CInt c = (case c of CInt _ \<Rightarrow> True | _ \<Rightarrow> False)"

definition string_column :: "cell list \<Rightarrow> bool" where
  "string_column col = (list_ex is_CStr col \<and> \<not> list_ex is_CInt col)"

definition str_accessor :: "cell list \<Rightarrow> error + cell list" where
  "str_accessor col =
     (if string_column col then Inr col
      else Inl (OutsideModel ''.str on a column that is not of strings''))"

definition str_cat :: "cell list \<Rightarrow> cell list \<Rightarrow> string \<Rightarrow> error + cell list" where
  "str_cat caller others sep =
     (if string_column others then Inr (map2 (str_cat_cell sep) caller others)
      else Inl (OutsideModel ''str.cat with a column that is not of strings''))"

text \<open>
  \<^verbatim>\<open>_set_unique_index\<close>. For a list of identifier columns the first one starts the column
  \<^verbatim>\<open>'index'\<close> and each further one is appended to it with the separator \<^verbatim>\<open>_\<close>; a single
  identifier column is copied. \<^verbatim>\<open>set_index('index', drop=True)\<close> makes that column the
  row index and removes it from the columns.
\<close>

fun index_loop :: "frame \<Rightarrow> string list \<Rightarrow> error + frame" where
  "index_loop df [] = Inr df"
| "index_loop df (i # ids) =
     err_bind (frame_getitem df ''index'') (\<lambda>cur.
     err_bind (str_accessor cur) (\<lambda>caller.
     err_bind (frame_getitem df i) (\<lambda>others.
     err_bind (str_cat caller others ''_'') (\<lambda>joined.
       index_loop (frame_setitem df ''index'' joined) ids))))"

definition set_index :: "frame \<Rightarrow> string \<Rightarrow> error + frame" where
  "set_index df c =
     err_bind (frame_getitem df c) (\<lambda>col.
       Inr \<lparr>index = col, columns = filter (\<lambda>kv. fst kv \<noteq> c) (columns df)\<rparr>)"

definition set_unique_index :: "request \<Rightarrow> frame \<Rightarrow> error + frame" where
  "set_unique_index request df =
     err_bind (series_identifiers request) (\<lambda>ids.
       case ids of
         Multi [] \<Rightarrow> Inl (IndexError ''pop from empty list'')
       | Multi (i0 # rest) \<Rightarrow>
           err_bind (frame_getitem df i0) (\<lambda>col.
           err_bind (index_loop (frame_setitem df ''index'' col) rest) (\<lambda>df'.
             set_index df' ''index''))
       | Single i \<Rightarrow>
           err_bind (frame_getitem df i) (\<lambda>col.
             set_index (frame_setitem df ''index'' col) ''index''))"

section \<open>Numeric reconstruction\<close>

text \<open>
  \<^verbatim>\<open>pd.to_numeric\<close> on one string. The model answers on two classes: a plain integer
  numeral within 64 bits is that integer, and a string with a visible character that
  is no letter, digit, sign, point or underscore (a bracket, say) cannot be parsed.
  Every other string (decimals, exponents, \<^verbatim>\<open>nan\<close>, blanks) is left to pandas; most of
  them make the column float64.
\<close>

datatype numeric = IsInt int | NotNumeric | OtherString

definition in_int64 :: "int \<Rightarrow> bool" where
  "in_int64 n = (- (2 ^ 63) \<le> n \<and> n < 2 ^ 63)"

definition is_alnum :: "char \<Rightarrow> bool" where
  "is_alnum c =
     (c \<in> set ''0123456789abcdefghijklmnopqrstuvwxyzABCDEFGHIJKLMNOPQRSTUVWXYZ'')"

definition to_numeric_cell :: "cell \<Rightarrow> numeric" where
  "to_numeric_cell c =
     (case c of
        CInt n \<Rightarrow> IsInt n
      | NaN \<Rightarrow> OtherString
      | CStr s \<Rightarrow>
          (case int_literal s of
             Some n \<Rightarrow> if in_int64 n then IsInt n else OtherString
           | None \<Rightarrow>
               if list_ex (\<lambda>ch. visible ch \<and> \<not> is_alnum ch \<and> ch \<notin> set ''+-._'') s
               then NotNumeric else OtherString))"

text \<open>
  \<^verbatim>\<open>pd.to_numeric\<close> on a column: ValueError as soon as one entry cannot be parsed,
  a column of 64-bit integers when every entry is an integer numeral.
\<close>

definition to_numeric :: "cell list \<Rightarrow> error + cell list" where
  "to_numeric col =
     (let ns = map to_numeric_cell col in
      if NotNumeric \<in> set ns then Inl (ValueError ''Unable to parse string'')
      else if OtherString \<in> set ns then Inl (OutsideModel ''to_numeric: float64 column'')
      else Inr (map (\<lambda>n. case n of IsInt i \<Rightarrow> CInt i | _ \<Rightarrow> NaN) ns))"

text \<open>\<^verbatim>\<open>astype(str)\<close> on one cell, and the dtypes that \<^verbatim>\<open>astype\<close> is given.\<close>

definition astype_str :: "cell \<Rightarrow> string" where
  "astype_str c = (case c of CStr s \<Rightarrow> s | CInt n \<Rightarrow> show_int n | NaN \<Rightarrow> ''nan'')"

datatype dtype = Str | Float64 | Object

text \<open>
  Lines 274 to 283 of \<^verbatim>\<open>_construct_data\<close>: the raw values become strings without
  commas; if the whole column parses it becomes numeric and \<^verbatim>\<open>data_dtype\<close> is float64;
  otherwise \<^verbatim>\<open>data_dtype\<close> is object and the entries for which \<^verbatim>\<open>str.isnumeric\<close> holds
  are converted by \<^verbatim>\<open>df.DataValue[idx] = pd.to_numeric(df.DataValue[idx])\<close>, while the
  others stay strings. That assignment aligns the converted values with the whole
  column and stores them as floating-point numbers, which are outside the model: the
  model answers when the mask selects no entry, and then the column is unchanged.
\<close>

definition coerce_DataValue :: "cell list \<Rightarrow> error + cell list \<times> dtype" where
  "coerce_DataValue raw =
     (let DataValue = map (\<lambda>c. CStr (filter (\<lambda>ch. ch \<noteq> CHR '','') (astype_str c))) raw in
      case to_numeric DataValue of
        Inr nums \<Rightarrow> Inr (nums, Float64)
      | Inl (ValueError _) \<Rightarrow>
          (let idx = map (\<lambda>c. case c of CStr s \<Rightarrow> isnumeric s | _ \<Rightarrow> False) DataValue in
           if list_ex (\<lambda>b. b) idx
           then Inl (OutsideModel ''masked assignment of float64 values'')
           else Inr (DataValue, Object))
      | Inl e \<Rightarrow> Inl e)"

text \<open>
  \<^verbatim>\<open>np.power(10, expos)\<close> on 64-bit integers raises ValueError for a negative exponent;
  \<^verbatim>\<open>np.multiply\<close> multiplies entry by entry. Results that leave 64 bits, and products
  with a column that still holds strings, are outside the model.
\<close>

definition power10 :: "cell list \<Rightarrow> error + int list" where
  "power10 expos =
     (if list_ex (\<lambda>c. case c of CInt e \<Rightarrow> e < 0 | _ \<Rightarrow> False) expos
      then Inl (ValueError ''Integers to negative integer powers are not allowed.'')
      else if list_all (\<lambda>c. case c of CInt e \<Rightarrow> in_int64 (10 ^ nat e) | _ \<Rightarrow> False) expos
      then Inr (map (\<lambda>c. case c of CInt e \<Rightarrow> 10 ^ nat e | _ \<Rightarrow> 0) expos)
      else Inl (OutsideModel ''np.power beyond 64 bits''))"

definition multiply :: "cell list \<Rightarrow> int list \<Rightarrow> error + cell list" where
  "multiply vals pows =
     (if list_all is_CInt vals \<and>
         list_all (\<lambda>vp. case fst vp of CInt v \<Rightarrow> in_int64 (v * snd vp) | _ \<Rightarrow> False) (zip vals pows)
      then Inr (map2 (\<lambda>v p. case v of CInt i \<Rightarrow> CInt (i * p) | _ \<Rightarrow> NaN) vals pows)
      else Inl (OutsideModel ''np.multiply on strings or beyond 64 bits''))"

text \<open>
  Lines 286 to 294: with a \<^verbatim>\<open>UNIT_MULT\<close> column the new column \<^verbatim>\<open>data\<close> is the value
  times ten to the exponent, and both source columns are dropped; without it
  (\<^verbatim>\<open>df.UNIT_MULT\<close> raises AttributeError) \<^verbatim>\<open>data\<close> is the value column.
\<close>

definition rescale :: "frame \<Rightarrow> error + frame" where
  "rescale df =
     (case frame_getattr df ''UNIT_MULT'' of
        Inr unit_mult \<Rightarrow>
          err_bind (to_numeric unit_mult) (\<lambda>expos.
          err_bind (frame_getattr df ''DataValue'') (\<lambda>vals.
          err_bind (power10 expos) (\<lambda>pows.
          err_bind (multiply vals pows) (\<lambda>prod.
            Inr (frame_drop (frame_setitem df ''data'' prod) [''DataValue'', ''UNIT_MULT''])))))
      | Inl (AttributeError _) \<Rightarrow>
          err_bind (frame_getattr df ''DataValue'') (\<lambda>vals.
            Inr (frame_drop (frame_setitem df ''data'' vals) [''DataValue'']))
      | Inl e \<Rightarrow> Inl e)"

text \<open>
  Lines 297 and 298: \<^verbatim>\<open>dict(zip(df.columns, (str, str, data_dtype)))\<close> pairs the columns
  with the three dtypes by position, and \<^verbatim>\<open>astype\<close> converts each paired column.
\<close>

definition astype_column :: "dtype \<Rightarrow> cell list \<Rightarrow> error + cell list" where
  "astype_column t col =
     (case t of
        Str \<Rightarrow> Inr (map (\<lambda>c. CStr (astype_str c)) col)
      | Object \<Rightarrow> Inr col
      | Float64 \<Rightarrow> Inl (OutsideModel ''astype(float64)''))"

fun astype_columns ::
  "(string \<times> cell list) list \<Rightarrow> (string \<times> dtype) list \<Rightarrow> error + (string \<times> cell list) list" where
  "astype_columns [] dtypes = Inr []"
| "astype_columns ((c, col) # rest) dtypes =
     err_bind (case map_of dtypes c of Some t \<Rightarrow> astype_column t col | None \<Rightarrow> Inr col) (\<lambda>col'.
     err_bind (astype_columns rest dtypes) (\<lambda>rest'. Inr ((c, col') # rest')))"

definition astype :: "frame \<Rightarrow> (string \<times> dtype) list \<Rightarrow> error + frame" where
  "astype df dtypes =
     err_bind (astype_columns (columns df) dtypes) (\<lambda>cols. Inr (df\<lparr>columns := cols\<rparr>))"

section \<open>The shape of the payload\<close>

text \<open>
  The payload of a data response is a pandas Series (a named vector over the row index)
  or a wide table with one row per period and one column per series.
\<close>

record wide =
  row_labels :: "cell list"
  col_labels :: "cell list"
  cells :: "cell list list"

datatype payload =
    Series cell "cell list" "cell list"
  | Wide wide

text \<open>
  Modelled from the spec: \<^verbatim>\<open>beapy.formats.DataFormatter\<close> is not among the sources. The
  specification describes it as the Reshaper: it is given a tidy table and the name of
  the period column and gives back a wide table whose rows are the period labels in
  chronological order (annual \<^verbatim>\<open>yyyy\<close>, quarterly \<^verbatim>\<open>yyyyQq\<close>, monthly \<^verbatim>\<open>yyyyMmm\<close>) and whose
  columns are the composite series keys in a stable order. \<open>period_key\<close> orders labels of
  these three forms by year and then by quarter or month; the keys keep the order of
  their first occurrence; a cell holds the value of the first row with that period and
  key, and is missing when there is none.
\<close>

definition period_key :: "cell \<Rightarrow> int" where
  "period_key c =
     (case c of
        CStr s \<Rightarrow>
          100 * int_of_digits (takeWhile is_digit s) +
          int_of_digits (drop 1 (dropWhile is_digit s))
      | _ \<Rightarrow> 0)"

definition DataFormatter_format :: "string \<Rightarrow> frame \<Rightarrow> error + wide" where
  "DataFormatter_format p_id df =
     err_bind (frame_getitem df ''index'') (\<lambda>keys.
     err_bind (frame_getitem df p_id) (\<lambda>periods.
     err_bind (frame_getitem df ''data'') (\<lambda>vals.
       let rows = sort_key period_key (uniq periods);
           cols = uniq keys;
           obs = zip (zip periods keys) vals
       in Inr \<lparr>row_labels = rows, col_labels = cols,
               cells = map (\<lambda>p. map (\<lambda>k. case map_of obs (p, k) of Some v \<Rightarrow> v | None \<Rightarrow> NaN) cols)
                           rows\<rparr>)))"

text \<open>
  \<^verbatim>\<open>df.reset_index()\<close> makes the row index the first column, named \<^verbatim>\<open>index\<close>, and
  numbers the rows anew; it raises ValueError when such a column exists already.
\<close>

definition reset_index :: "frame \<Rightarrow> error + frame" where
  "reset_index df =
     (if ''index'' \<in> set (map fst (columns df))
      then Inl (ValueError ''cannot insert index, already exists'')
      else Inr \<lparr>index = map (\<lambda>i. CInt (int i)) [0..<length (index df)],
                columns = (''index'', index df) # columns df\<rparr>)"

text \<open>
  \<^verbatim>\<open>df.drop(columns=p_id).squeeze().rename(p)\<close>. \<^verbatim>\<open>squeeze\<close> turns a frame with one column
  into the Series of that column, but a frame with one column and one row into the
  single value itself, and a value has no method \<^verbatim>\<open>rename\<close>. The model follows the
  source on frames with exactly one column left.
\<close>

definition squeeze_rename :: "frame \<Rightarrow> cell \<Rightarrow> error + payload" where
  "squeeze_rename df p =
     (case columns df of
        [(c, col)] \<Rightarrow>
          if length col = 1 then Inl (AttributeError ''object has no attribute rename'')
          else Inr (Series p (index df) col)
      | _ \<Rightarrow> Inl (OutsideModel ''squeeze of a frame without exactly one column''))"

text \<open>
  \<^verbatim>\<open>_construct_data\<close>. \<^verbatim>\<open>nunique\<close> counts the distinct values of the period column that
  are not missing.
\<close>

definition nunique :: "cell list \<Rightarrow> nat" where
  "nunique col = length (uniq (filter (\<lambda>c. c \<noteq> NaN) col))"

definition construct_data :: "request \<Rightarrow> frame \<Rightarrow> error + payload" where
  "construct_data request df =
     err_bind (frame_getattr df ''DataValue'') (\<lambda>raw.
     err_bind (coerce_DataValue raw) (\<lambda>(DataValue, data_dtype).
     err_bind (rescale (frame_setitem df ''DataValue'' DataValue)) (\<lambda>df.
     err_bind (astype df (zip (map fst (columns df)) [Str, Str, data_dtype])) (\<lambda>df.
     err_bind (period_identifier request) (\<lambda>p_id.
     err_bind (frame_getitem df p_id) (\<lambda>periods.
       if nunique periods = 1 then
         (case periods of
            p # _ \<Rightarrow> squeeze_rename (frame_drop df [p_id]) p
          | [] \<Rightarrow> Inl (IndexError ''single positional indexer is out-of-bounds''))
       else
         err_bind (reset_index df) (\<lambda>df.
         err_bind (DataFormatter_format p_id df) (\<lambda>w. Inr (Wide w)))))))))"

section \<open>Metadata\<close>

text \<open>
  \<^verbatim>\<open>md.NoteRef.map(self.notes)\<close> looks every reference up in the dictionary of notes; a
  reference without a note is missing in the result. Note texts that are not strings
  are outside the model.
\<close>

definition note_key :: "cell \<Rightarrow> json option" where
  "note_key c = (case c of CStr s \<Rightarrow> Some (JStr s) | CInt n \<Rightarrow> Some (JNum n) | NaN \<Rightarrow> None)"

fun map_notes :: "(json \<times> json) list \<Rightarrow> cell list \<Rightarrow> error + cell list" where
  "map_notes notes [] = Inr []"
| "map_notes notes (c # cs) =
     err_bind
       (case note_key c of
          None \<Rightarrow> Inr NaN
        | Some k \<Rightarrow>
            (case map_of notes k of
               None \<Rightarrow> Inr NaN
             | Some (JStr text) \<Rightarrow> Inr (CStr text)
             | Some _ \<Rightarrow> Inl (OutsideModel ''a note that is not a string'')))
       (\<lambda>c'. err_bind (map_notes notes cs) (\<lambda>cs'. Inr (c' # cs')))"

text \<open>
  \<^verbatim>\<open>drop_duplicates\<close> keeps, of the rows that agree in every column, the first one; the
  row index plays no part in the comparison. Every column of a frame is as long as the
  index.
\<close>

definition frame_rows :: "frame \<Rightarrow> cell list list" where
  "frame_rows df = map (\<lambda>i. map (\<lambda>kv. snd kv ! i) (columns df)) [0..<length (index df)]"

fun first_occurrence :: "'a list \<Rightarrow> 'a list \<Rightarrow> bool list" where
  "first_occurrence seen [] = []"
| "first_occurrence seen (r # rs) = (r \<notin> set seen) # first_occurrence (r # seen) rs"

definition select :: "bool list \<Rightarrow> 'a list \<Rightarrow> 'a list" where
  "select keep xs = map fst (filter snd (zip xs keep))"

definition drop_duplicates :: "frame \<Rightarrow> error + frame" where
  "drop_duplicates df =
     (if columns df = [] then Inl (OutsideModel ''drop_duplicates without columns'')
      else let keep = first_occurrence [] (frame_rows df)
           in Inr \<lparr>index = select keep (index df),
                   columns = map (\<lambda>kv. (fst kv, select keep (snd kv))) (columns df)\<rparr>)"

text \<open>
  \<^verbatim>\<open>_construct_metadata\<close>: with notes and a \<^verbatim>\<open>NoteRef\<close> column the references are replaced
  by the note texts in a column \<^verbatim>\<open>Notes\<close>; with notes and no such column the source only
  warns.
\<close>

definition construct_metadata :: "(json \<times> json) list \<Rightarrow> frame \<Rightarrow> error + frame" where
  "construct_metadata notes md =
     err_bind
       (if notes \<noteq> [] then
          (if ''NoteRef'' \<notin> set (map fst (columns md)) then Inr md
           else
             err_bind (frame_getattr md ''NoteRef'') (\<lambda>refs.
             err_bind (map_notes notes refs) (\<lambda>texts.
               Inr (frame_drop (frame_setitem md ''Notes'' texts) [''NoteRef'']))))
        else Inr md)
       drop_duplicates"

section \<open>Building a data response\<close>

record dimension =
  dtype :: json
  is_value :: bool

text \<open>
  \<^verbatim>\<open>_construct_data_and_metadata\<close>: one frame with the composite keys as row index, from
  which the value columns (period, \<^verbatim>\<open>DataValue\<close>, and \<^verbatim>\<open>UNIT_MULT\<close> when the dimensions
  list it) go to \<^verbatim>\<open>_construct_data\<close> and all other columns to \<^verbatim>\<open>_construct_metadata\<close>.
\<close>

definition data_columns :: "request \<Rightarrow> (json \<times> dimension) list \<Rightarrow> error + string list" where
  "data_columns request dimensions =
     err_bind (period_identifier request) (\<lambda>p_id.
       Inr ([p_id, ''DataValue''] @
            (if JStr ''UNIT_MULT'' \<in> set (map fst dimensions) then [''UNIT_MULT''] else [])))"

definition construct_data_and_metadata ::
  "request \<Rightarrow> (json \<times> dimension) list \<Rightarrow> (json \<times> json) list \<Rightarrow> json \<Rightarrow> error + payload \<times> frame"
where
  "construct_data_and_metadata request dimensions notes data =
     err_bind (DataFrame data) (\<lambda>df_md.
     err_bind (set_unique_index request df_md) (\<lambda>df_md.
     err_bind (data_columns request dimensions) (\<lambda>data_cols.
     let meta_cols = filter (\<lambda>c. c \<notin> set data_cols) (map fst (columns df_md)) in
     err_bind (frame_loc df_md data_cols) (\<lambda>values.
     err_bind (construct_data request values) (\<lambda>df.
     err_bind (frame_loc df_md meta_cols) (\<lambda>meta.
     err_bind (construct_metadata notes meta) (\<lambda>md.
       Inr (df, md))))))))"

text \<open>
  \<^verbatim>\<open>_safe_access_json_field\<close> locates the field in the whole document (removing it when
  asked). A field that is a string goes through \<^verbatim>\<open>ast.literal_eval\<close>, which is outside
  the model. The result is the field and the document after the call.
\<close>

definition safe_access_json_field :: "json \<Rightarrow> string \<Rightarrow> bool \<Rightarrow> error + json \<times> json" where
  "safe_access_json_field bea_json key pop =
     err_bind (getitem_any_level bea_json key pop) (\<lambda>(field, bea_json').
       case field of
         JStr s \<Rightarrow> Inl (OutsideModel ''ast.literal_eval'')
       | _ \<Rightarrow> Inr (field, bea_json'))"

section \<open>Response objects\<close>

text \<open>
  A response object has its class, the request dictionary, the located result block and
  the URL, and the attributes its class adds. (In the source \<^verbatim>\<open>result\<close> is a reference
  into the document, so fields removed from the document later are gone from it too;
  the model keeps the block as it was located.)
\<close>

datatype klass =
    DatasetListResponse
  | ParameterListResponse
  | ParameterValuesResponse
  | DataResponse

datatype attributes =
    Datasets "(json \<times> json) list"
  | Parameters "(json \<times> json) list"
  | DataAttributes json "(json \<times> dimension) list" "(json \<times> json) list" payload frame

datatype response = BEAResponse klass request json string attributes

text \<open>\<^verbatim>\<open>DatasetListResponse.__init__\<close>: the loop over \<^verbatim>\<open>self.result['Dataset']\<close>.\<close>

fun datasets_loop :: "json list \<Rightarrow> (json \<times> json) list \<Rightarrow> error + (json \<times> json) list" where
  "datasets_loop [] datasets = Inr datasets"
| "datasets_loop (d # ds) datasets =
     err_bind (py_getitem d ''DatasetDescription'') (\<lambda>description.
     err_bind (py_getitem d ''DatasetName'') (\<lambda>name.
     err_bind (dict_setitem name description datasets) (\<lambda>datasets'.
       datasets_loop ds datasets')))"

definition DatasetListResponse_init :: "request \<Rightarrow> json \<Rightarrow> string \<Rightarrow> error + response" where
  "DatasetListResponse_init request result url =
     err_bind (py_getitem result ''Dataset'') (\<lambda>rows.
     err_bind (py_iter rows) (\<lambda>ds.
     err_bind (datasets_loop ds []) (\<lambda>datasets.
       Inr (BEAResponse DatasetListResponse request result url (Datasets datasets)))))"

text \<open>
  \<^verbatim>\<open>ParameterListResponse.__init__\<close>: \<^verbatim>\<open>p.pop('ParameterName')\<close> needs a dictionary with
  that key; the descriptor without its name is stored under the name.
\<close>

fun py_pop :: "json \<Rightarrow> string \<Rightarrow> error + json \<times> json" where
  "py_pop (JDict kvs) name =
     (case map_of kvs name of
        Some v \<Rightarrow> Inr (v, JDict (dict_pop name kvs))
      | None \<Rightarrow> Inl (KeyError (JStr name)))"
| "py_pop (JList xs) name = Inl (TypeError ''str object cannot be interpreted as an integer'')"
| "py_pop _ name = Inl (AttributeError ''object has no attribute pop'')"

fun parameters_loop :: "json list \<Rightarrow> (json \<times> json) list \<Rightarrow> error + (json \<times> json) list" where
  "parameters_loop [] parameters = Inr parameters"
| "parameters_loop (p # ps) parameters =
     err_bind (py_pop p ''ParameterName'') (\<lambda>(name, p').
     err_bind (dict_setitem name p' parameters) (\<lambda>parameters'.
       parameters_loop ps parameters'))"

definition ParameterListResponse_init :: "request \<Rightarrow> json \<Rightarrow> string \<Rightarrow> error + response" where
  "ParameterListResponse_init request result url =
     err_bind (py_getitem result ''Parameter'') (\<lambda>rows.
     err_bind (py_iter rows) (\<lambda>ps.
     err_bind (parameters_loop ps []) (\<lambda>parameters.
       Inr (BEAResponse ParameterListResponse request result url (Parameters parameters)))))"

text \<open>
  \<^verbatim>\<open>ParameterValuesResponse.__init__\<close>: \<^verbatim>\<open>key, description = tuple(p.values())\<close> needs a
  dictionary with exactly two values.
\<close>

fun unpack_values :: "json \<Rightarrow> error + json \<times> json" where
  "unpack_values (JDict [(k1, key), (k2, description)]) = Inr (key, description)"
| "unpack_values (JDict kvs) = Inl (ValueError ''wrong number of values to unpack'')"
| "unpack_values _ = Inl (AttributeError ''object has no attribute values'')"

fun values_loop :: "json list \<Rightarrow> (json \<times> json) list \<Rightarrow> error + (json \<times> json) list" where
  "values_loop [] parameters = Inr parameters"
| "values_loop (p # ps) parameters =
     err_bind (unpack_values p) (\<lambda>(key, description).
     err_bind (dict_setitem key description parameters) (\<lambda>parameters'.
       values_loop ps parameters'))"

definition ParameterValuesResponse_init :: "request \<Rightarrow> json \<Rightarrow> string \<Rightarrow> error + response" where
  "ParameterValuesResponse_init request result url =
     err_bind (py_getitem result ''ParamValue'') (\<lambda>rows.
     err_bind (py_iter rows) (\<lambda>ps.
     err_bind (values_loop ps []) (\<lambda>parameters.
       Inr (BEAResponse ParameterValuesResponse request result url (Parameters parameters)))))"

text \<open>
  \<^verbatim>\<open>DataResponse.__init__\<close>. The dimensions are read from the document; the notes are
  removed from it and collected, where a KeyError anywhere in that block is passed
  over (the notes collected so far stay); the observation rows are removed from it and
  become the payload and the metadata.
\<close>

fun dimensions_loop ::
  "json list \<Rightarrow> (json \<times> dimension) list \<Rightarrow> error + (json \<times> dimension) list" where
  "dimensions_loop [] dimensions = Inr dimensions"
| "dimensions_loop (dim # dims) dimensions =
     err_bind (py_getitem dim ''DataType'') (\<lambda>data_type.
     err_bind (py_getitem dim ''IsValue'') (\<lambda>v.
     err_bind (py_int v) (\<lambda>n.
     err_bind (py_getitem dim ''Name'') (\<lambda>name.
     err_bind (dict_setitem name \<lparr>dtype = data_type, is_value = (n \<noteq> 0)\<rparr> dimensions)
       (\<lambda>dimensions'. dimensions_loop dims dimensions')))))"

fun notes_loop :: "json list \<Rightarrow> (json \<times> json) list \<Rightarrow> error + (json \<times> json) list" where
  "notes_loop [] notes = Inr notes"
| "notes_loop (note # rest) notes =
     (case err_bind (py_getitem note ''NoteText'') (\<lambda>text.
           err_bind (py_getitem note ''NoteRef'') (\<lambda>ref.
             dict_setitem ref text notes)) of
        Inr notes' \<Rightarrow> notes_loop rest notes'
      | Inl (KeyError _) \<Rightarrow> Inr notes
      | Inl e \<Rightarrow> Inl e)"

definition collect_notes :: "json \<Rightarrow> error + (json \<times> json) list \<times> json" where
  "collect_notes bea_json =
     (case safe_access_json_field bea_json ''Notes'' True of
        Inr (note_list, bea_json') \<Rightarrow>
          err_bind (py_iter note_list) (\<lambda>ns.
          err_bind (notes_loop ns []) (\<lambda>notes. Inr (notes, bea_json')))
      | Inl (KeyError _) \<Rightarrow> Inr ([], bea_json)
      | Inl e \<Rightarrow> Inl e)"

definition DataResponse_init :: "request \<Rightarrow> json \<Rightarrow> string \<Rightarrow> json \<Rightarrow> error + response" where
  "DataResponse_init request result url bea_json =
     err_bind (safe_access_json_field bea_json ''Dimensions'' False) (\<lambda>(dims, _).
     err_bind (py_iter dims) (\<lambda>dims.
     err_bind (dimensions_loop dims []) (\<lambda>dimensions.
     err_bind (collect_notes bea_json) (\<lambda>(notes, bea_json).
     err_bind (safe_access_json_field bea_json ''Data'' True) (\<lambda>(data_list, bea_json).
     err_bind (construct_data_and_metadata request dimensions notes data_list) (\<lambda>(df, md).
       Inr (BEAResponse DataResponse request result url
              (DataAttributes bea_json dimensions notes df md))))))))"

section \<open>From a document to a response\<close>

text \<open>
  \<^verbatim>\<open>BEAAPIError(err_json)\<close>: the constructor locates the code and the description in the
  error block and formats the message. It returns the exception object, or raises the
  KeyError of a failed lookup.
\<close>

definition BEAAPIError_init :: "json \<Rightarrow> error + error" where
  "BEAAPIError_init err_json =
     err_bind (getitem_any_level err_json ''APIErrorCode'' False) (\<lambda>(err_code, _).
     err_bind (getitem_any_level err_json ''APIErrorDescription'' False) (\<lambda>(err_desc, _).
     err_bind (py_str err_code) (\<lambda>code.
     err_bind (py_str err_desc) (\<lambda>desc.
       Inr (BEAAPIError (''API Code: '' @ code @ ''. Description: '' @ desc))))))"

text \<open>
  Lines 134 to 139 of \<^verbatim>\<open>from_response\<close>:
  \<^verbatim>\<open>try: err = getitem_any_level(bea_json, 'Error'); raise BEAAPIError(err) from None\<close>
  \<^verbatim>\<open>except KeyError: pass\<close>.
  The handler encloses both statements, so it catches a KeyError of the first lookup and
  a KeyError raised while the exception object is built.
\<close>

definition error_block :: "json \<Rightarrow> error + unit" where
  "error_block bea_json =
     (case err_bind (getitem_any_level bea_json ''Error'' False) (\<lambda>(err, _).
           err_bind (BEAAPIError_init err) (\<lambda>exc. Inl exc)) of
        Inl (KeyError _) \<Rightarrow> Inr ()
      | r \<Rightarrow> r)"

text \<open>The loop that turns the list of request parameters into the request dictionary.\<close>

fun request_loop :: "json list \<Rightarrow> request \<Rightarrow> error + request" where
  "request_loop [] request = Inr request"
| "request_loop (pdict # rest) request =
     err_bind (py_getitem pdict ''ParameterValue'') (\<lambda>v.
     err_bind (py_getitem pdict ''ParameterName'') (\<lambda>name.
     err_bind (dict_setitem name v request) (\<lambda>request'.
       request_loop rest request')))"

text \<open>The table \<^verbatim>\<open>response_classes\<close> and the lookup \<^verbatim>\<open>response_classes[method]\<close>.\<close>

definition response_classes :: "(json \<times> klass) list" where
  "response_classes =
     [(JStr ''GETDATASETLIST'', DatasetListResponse),
      (JStr ''GETPARAMETERLIST'', ParameterListResponse),
      (JStr ''GETPARAMETERVALUES'', ParameterValuesResponse),
      (JStr ''GETPARAMETERVALUESFILTERED'', ParameterValuesResponse),
      (JStr ''GETDATA'', DataResponse)]"

text \<open>\<^verbatim>\<open>klass(request, result, url, bea_json=bea_json)\<close>.\<close>

fun klass_init :: "klass \<Rightarrow> request \<Rightarrow> json \<Rightarrow> string \<Rightarrow> json \<Rightarrow> error + response" where
  "klass_init DatasetListResponse request result url bea_json =
     DatasetListResponse_init request result url"
| "klass_init ParameterListResponse request result url bea_json =
     ParameterListResponse_init request result url"
| "klass_init ParameterValuesResponse request result url bea_json =
     ParameterValuesResponse_init request result url"
| "klass_init DataResponse request result url bea_json =
     DataResponse_init request result url bea_json"

text \<open>
  The steps of \<^verbatim>\<open>from_response\<close> before the constructor call: the error block, the
  request dictionary (the parameters are removed from the document), the result block
  and the class for the request's \<^verbatim>\<open>METHOD\<close>.
\<close>

definition prepare :: "json \<Rightarrow> error + klass \<times> request \<times> json \<times> json" where
  "prepare bea_json =
     err_bind (error_block bea_json) (\<lambda>_.
     err_bind (getitem_any_level bea_json ''RequestParam'' True) (\<lambda>(request_parameters, bea_json').
     err_bind (py_iter request_parameters) (\<lambda>pdicts.
     err_bind (request_loop pdicts []) (\<lambda>request.
     err_bind (getitem_any_level bea_json' ''Results'' False) (\<lambda>(result, _).
     err_bind (dict_getitem request (JStr ''METHOD'')) (\<lambda>method.
     err_bind (dict_getitem response_classes method) (\<lambda>klass.
       Inr (klass, request, result, bea_json'))))))))"

text \<open>
  \<^verbatim>\<open>BEAResponse.from_response\<close> for a response with URL \<open>url\<close> whose body parses to
  \<open>bea_json\<close>. Whatever the constructor raises is replaced by one ValueError that names
  the URL (\<open>OutsideModel\<close>, which is no exception, is passed on). The outer handler turns
  an AttributeError into NotImplementedError.
\<close>

definition from_response :: "string \<Rightarrow> json \<Rightarrow> error + response" where
  "from_response url bea_json =
     (case err_bind (prepare bea_json) (\<lambda>(klass, request, result, bea_json').
             case klass_init klass request result url bea_json' of
               Inr r \<Rightarrow> Inr r
             | Inl (OutsideModel s) \<Rightarrow> Inl (OutsideModel s)
             | Inl e \<Rightarrow> Inl (ValueError (''could not create BEAResponse. url is '' @ [CHR 0x0A] @ url))) of
        Inl (AttributeError _) \<Rightarrow> Inl (NotImplementedError ''cannot create Response without json'')
      | r \<Rightarrow> r)"

definition create_response :: "string \<Rightarrow> json \<Rightarrow> error + response" where
  "create_response url bea_json = from_response url bea_json"

section \<open>Notions used in the statements\<close>

text \<open>
  The number of places in a document where a dictionary has the key, at any depth and
  in any element of a list.
\<close>

fun count_key :: "string \<Rightarrow> json \<Rightarrow> nat"
  and count_key_items :: "string \<Rightarrow> (string \<times> json) list \<Rightarrow> nat"
  and count_key_elems :: "string \<Rightarrow> json list \<Rightarrow> nat"
where
  "count_key key (JDict kvs) = count_key_items key kvs"
| "count_key key (JList ds) = count_key_elems key ds"
| "count_key key (JStr s) = 0"
| "count_key key (JNum n) = 0"
| "count_key key JNull = 0"
| "count_key_items key [] = 0"
| "count_key_items key ((k, v) # rest) =
     (if k = key then 1 else 0) + count_key key v + count_key_items key rest"
| "count_key_elems key [] = 0"
| "count_key_elems key (d # ds) = count_key key d + count_key_elems key ds"

text \<open>
  The places the locator looks at: the keys of a dictionary and, in order, what is below
  its values; of a list, what is below its first element.
\<close>

fun on_search_path :: "string \<Rightarrow> json \<Rightarrow> bool"
  and on_search_path_values :: "string \<Rightarrow> (string \<times> json) list \<Rightarrow> bool"
where
  "on_search_path key (JDict kvs) = (key \<in> set (map fst kvs) \<or> on_search_path_values key kvs)"
| "on_search_path key (JList []) = False"
| "on_search_path key (JList (d # ds)) = on_search_path key d"
| "on_search_path key (JStr s) = False"
| "on_search_path key (JNum n) = False"
| "on_search_path key JNull = False"
| "on_search_path_values key [] = False"
| "on_search_path_values key ((k, v) # rest) =
     (on_search_path key v \<or> on_search_path_values key rest)"

text \<open>A call that raised KeyError, and the document a call leaves behind.\<close>

definition fails_KeyError :: "error + 'a \<Rightarrow> bool" where
  "fails_KeyError r = (case r of Inl (KeyError _) \<Rightarrow> True | _ \<Rightarrow> False)"

definition tree_after :: "json \<Rightarrow> error + json \<times> json \<Rightarrow> json" where
  "tree_after t r = (case r of Inr (v, t') \<Rightarrow> t' | Inl e \<Rightarrow> t)"

text \<open>A message includes a URL when the URL is a contiguous part of it.\<close>

definition message_includes :: "string \<Rightarrow> string \<Rightarrow> bool" where
  "message_includes msg url = list_ex (\<lambda>i. take (length url) (drop i msg) = url) [0..<Suc (length msg)]"

text \<open>
  The composite key as the specification words it: the values of the identifier
  fields of a row, in the declared order, joined by the separator.
\<close>

fun join :: "string \<Rightarrow> string list \<Rightarrow> string" where
  "join sep [] = []"
| "join sep [x] = x"
| "join sep (x # y # ys) = x @ sep @ join sep (y # ys)"

definition field :: "(string \<times> string) list \<Rightarrow> string \<Rightarrow> string" where
  "field row i = (case map_of row i of Some v \<Rightarrow> v | None \<Rightarrow> [])"

definition composite_key :: "string list \<Rightarrow> (string \<times> string) list \<Rightarrow> cell" where
  "composite_key ids row = CStr (join ''_'' (map (field row) ids))"

text \<open>
  The label of a row's period as the payload has it: the string of the period field,
  and \<^verbatim>\<open>nan\<close> for a row without it (\<^verbatim>\<open>astype(str)\<close> of the missing value).
\<close>

definition period_label :: "string \<Rightarrow> (string \<times> string) list \<Rightarrow> cell" where
  "period_label p_id row = CStr (case map_of row p_id of Some s \<Rightarrow> s | None \<Rightarrow> ''nan'')"

text \<open>The attribute \<^verbatim>\<open>data\<close> of the response that a call returned.\<close>

definition data_of :: "error + response \<Rightarrow> error + payload" where
  "data_of r =
     err_bind r (\<lambda>resp.
       case resp of
         BEAResponse _ _ _ _ (DataAttributes _ _ _ df _) \<Rightarrow> Inr df
       | _ \<Rightarrow> Inl (AttributeError ''object has no attribute data''))"

text \<open>
  Example documents. A data document in the nested shape, for a dataset, with its
  dimensions and observation rows; and the parts it is made of.
\<close>

definition parameter :: "string \<Rightarrow> string \<Rightarrow> json" where
  "parameter name v = JDict [(''ParameterName'', JStr name), (''ParameterValue'', JStr v)]"

definition dimension_entry :: "string \<Rightarrow> string \<Rightarrow> string \<Rightarrow> json" where
  "dimension_entry name data_type v =
     JDict [(''Name'', JStr name), (''DataType'', JStr data_type), (''IsValue'', JStr v)]"

definition results_block :: "json list \<Rightarrow> json list \<Rightarrow> json" where
  "results_block dims rows = JDict [(''Dimensions'', JList dims), (''Data'', JList rows)]"

definition data_document :: "string \<Rightarrow> json list \<Rightarrow> json list \<Rightarrow> json" where
  "data_document dataset dims rows =
     JDict [(''BEAAPI'', JDict
       [(''Request'', JDict [(''RequestParam'',
           JList [parameter ''METHOD'' ''GETDATA'', parameter ''DATASETNAME'' dataset])]),
        (''Results'', results_block dims rows)])]"

definition observation :: "string \<Rightarrow> string \<Rightarrow> string \<Rightarrow> json" where
  "observation series period v =
     JDict [(''SeriesCode'', JStr series), (''TimePeriod'', JStr period), (''DataValue'', JStr v)]"

definition scaled_observation :: "string \<Rightarrow> string \<Rightarrow> string \<Rightarrow> string \<Rightarrow> json" where
  "scaled_observation series period v e =
     JDict [(''SeriesCode'', JStr series), (''TimePeriod'', JStr period), (''DataValue'', JStr v),
            (''UNIT_MULT'', JStr e)]"

definition nipa_dimensions :: "json list" where
  "nipa_dimensions =
     [dimension_entry ''SeriesCode'' ''string'' ''0'',
      dimension_entry ''TimePeriod'' ''string'' ''0'',
      dimension_entry ''DataValue'' ''numeric'' ''1'']"

definition mne_observation :: "string \<Rightarrow> string \<Rightarrow> string \<Rightarrow> string \<Rightarrow> string \<Rightarrow> json" where
  "mne_observation series row col year v =
     JDict [(''SeriesID'', JStr series), (''RowCode'', JStr row), (''ColumnCode'', JStr col),
            (''Year'', JStr year), (''DataValue'', JStr v)]"

definition example_url :: string where
  "example_url = ''https://apps.bea.gov/api/data''"

text \<open>
  A dataset-list document that also has an error block with a code and no description;
  a dataset-list document whose result block has no rows; documents without the request
  parameters, without the result block and without the \<^verbatim>\<open>METHOD\<close> parameter; the
  document of the specification's error example; and a parameter-values document for a
  given method name.
\<close>

definition dataset_list_document_with_error :: json where
  "dataset_list_document_with_error =
     JDict [(''BEAAPI'', JDict
       [(''Request'', JDict [(''RequestParam'', JList [parameter ''METHOD'' ''GETDATASETLIST''])]),
        (''Error'', JDict [(''APIErrorCode'', JStr ''1'')]),
        (''Results'', JDict [(''Dataset'', JList
           [JDict [(''DatasetName'', JStr ''NIPA''),
                   (''DatasetDescription'', JStr ''Standard NIPA tables'')]])])])]"

definition dataset_list_document_without_rows :: json where
  "dataset_list_document_without_rows =
     JDict [(''BEAAPI'', JDict
       [(''Request'', JDict [(''RequestParam'', JList [parameter ''METHOD'' ''GETDATASETLIST''])]),
        (''Results'', JDict [])])]"

definition document_without_request_parameters :: json where
  "document_without_request_parameters =
     JDict [(''BEAAPI'', JDict [(''Request'', JDict []), (''Results'', JDict [])])]"

definition document_without_results :: json where
  "document_without_results =
     JDict [(''BEAAPI'', JDict
       [(''Request'', JDict [(''RequestParam'', JList [parameter ''METHOD'' ''GETDATASETLIST''])])])]"

definition document_without_method :: json where
  "document_without_method =
     JDict [(''BEAAPI'', JDict
       [(''Request'', JDict [(''RequestParam'', JList [parameter ''DATASETNAME'' ''NIPA''])]),
        (''Results'', JDict [])])]"

definition api_error_document :: json where
  "api_error_document =
     JDict [(''A'', JDict [(''B'', JDict [(''Error'', JDict
       [(''APIErrorCode'', JStr ''200''), (''APIErrorDescription'', JStr ''bad request'')])])])]"

definition parameter_values_document :: "string \<Rightarrow> json" where
  "parameter_values_document method =
     JDict [(''BEAAPI'', JDict
       [(''Request'', JDict [(''RequestParam'', JList [parameter ''METHOD'' method])]),
        (''Results'', JDict [(''ParamValue'', JList
           [JDict [(''Key'', JStr ''A''), (''Desc'', JStr ''Annual'')]])])])]"

section \<open>Results on the field locator\<close>

text \<open>The locator raises nothing but KeyError, and the dictionary loop never ends with
  another exception.\<close>

lemma getitem_only_KeyError:
  "getitem_any_level t key pop = Inl e \<Longrightarrow> \<exists>m. e = KeyError m"
  "getitem_values kvs key pop \<noteq> Some (Inl e)"
  by (induction t key pop and kvs key pop rule: getitem_any_level_getitem_values.induct)
     (auto split: option.splits sum.splits error.splits if_splits)

text \<open>
  C1. The claim: whenever the key occurs in the document, also inside elements of
  lists, the locator returns its value; in a list the search goes through every element
  and so finds a key that occurs only in a later element. On the code: the loop over a
  list returns from its first iteration, so only the first element is searched. For the
  list \<^verbatim>\<open>[{"a": 1}, {"k": 2}]\<close> and the key \<^verbatim>\<open>k\<close> the locator raises KeyError although the
  second element has the key.
\<close>

theorem locator_skips_later_list_elements:
  "getitem_any_level (JList [JDict [(''a'', JNum 1)], JDict [(''k'', JNum 2)]]) ''k'' False =
     Inl (KeyError (JStr ''key k was not found at any level of provided dict''))"
  by simp

text \<open>
  What the locator does find: a call succeeds exactly when the key is at one of the
  places it looks at, whether it removes or not.
\<close>

lemma located_iff_on_search_path:
  "(\<exists>r. getitem_any_level t key pop = Inr r) = on_search_path key t"
  "(\<exists>r. getitem_values kvs key pop = Some (Inr r)) = on_search_path_values key kvs"
proof (induction t key pop and kvs key pop rule: getitem_any_level_getitem_values.induct)
  case (1 kvs key pop)
  show ?case
  proof (cases "map_of kvs key")
    case None
    then have "key \<notin> set (map fst kvs)" by (simp add: map_of_eq_None_iff)
    with None 1 show ?thesis
      by (cases "getitem_values kvs key pop") (auto split: sum.splits)
  next
    case (Some v)
    then have "key \<in> set (map fst kvs)"
      using map_of_eq_None_iff[of kvs key] by force
    with Some show ?thesis by simp
  qed
next
  case (3 d ds key pop)
  then show ?case by (cases "getitem_any_level d key pop") auto
next
  case (8 k sub_dict rest key pop)
  show ?case
  proof (cases "getitem_any_level sub_dict key pop")
    case (Inl e)
    show ?thesis
    proof (cases e)
      case (KeyError m)
      with Inl 8 show ?thesis
        by (cases "getitem_values rest key pop") (auto split: sum.splits)
    qed (use Inl getitem_only_KeyError(1)[of sub_dict key pop e] in auto)
  next
    case (Inr r)
    with 8 show ?thesis by (cases r) auto
  qed
qed simp_all

text \<open>A document without the key is searched in vain.\<close>

lemma count_items_map_of_None:
  "count_key_items key kvs = 0 \<Longrightarrow> map_of kvs key = None"
  by (induction kvs) (auto split: if_splits)

lemma count_zero_fails:
  "count_key key t = 0 \<Longrightarrow> \<exists>m. getitem_any_level t key pop = Inl (KeyError m)"
  "count_key_items key kvs = 0 \<Longrightarrow> getitem_values kvs key pop = None"
  by (induction t key pop and kvs key pop rule: getitem_any_level_getitem_values.induct)
     (auto split: option.splits sum.splits error.splits if_splits simp: count_items_map_of_None)

text \<open>Removal takes the entry, and all that is below it, out of the document.\<close>

lemma dict_pop_simps:
  "dict_pop key [] = []"
  "dict_pop key ((k, v) # rest) =
     (if k = key then dict_pop key rest else (k, v) # dict_pop key rest)"
  by (simp_all add: dict_pop_def)

lemma count_items_pop_le:
  "count_key_items key (dict_pop key kvs) \<le> count_key_items key kvs"
  by (induction kvs) (auto simp: dict_pop_simps)

lemma count_items_pop:
  "map_of kvs key = Some v \<Longrightarrow>
   count_key_items key (dict_pop key kvs) + count_key key v < count_key_items key kvs"
proof (induction kvs)
  case Nil
  then show ?case by simp
next
  case (Cons kv kvs)
  obtain k w where kv: "kv = (k, w)" by (cases kv)
  show ?case
  proof (cases "k = key")
    case True
    with Cons.prems kv have "w = v" by simp
    with True kv count_items_pop_le[of key kvs] show ?thesis by (simp add: dict_pop_simps)
  next
    case False
    with Cons kv show ?thesis by (simp add: dict_pop_simps)
  qed
qed

lemma count_after_pop:
  "getitem_any_level t key pop = Inr (v, t') \<Longrightarrow> pop \<Longrightarrow>
   count_key key t' + count_key key v < count_key key t"
  "getitem_values kvs key pop = Some (Inr (v, kvs')) \<Longrightarrow> pop \<Longrightarrow>
   count_key_items key kvs' + count_key key v < count_key_items key kvs"
  by (induction t key pop and kvs key pop arbitrary: v t' and v kvs'
        rule: getitem_any_level_getitem_values.induct)
     (auto split: option.splits sum.splits error.splits if_splits simp: count_items_pop)

text \<open>Whether the call removes or not, it finds the same value or raises the same error.\<close>

lemma getitem_pop_value:
  "(\<forall>e. getitem_any_level t key pop = Inl e \<longrightarrow> getitem_any_level t key pop' = Inl e) \<and>
   (\<forall>v t'. getitem_any_level t key pop = Inr (v, t') \<longrightarrow>
      (\<exists>t''. getitem_any_level t key pop' = Inr (v, t'')))"
  "(getitem_values kvs key pop = None \<longrightarrow> getitem_values kvs key pop' = None) \<and>
   (\<forall>e. getitem_values kvs key pop = Some (Inl e) \<longrightarrow>
      getitem_values kvs key pop' = Some (Inl e)) \<and>
   (\<forall>v r. getitem_values kvs key pop = Some (Inr (v, r)) \<longrightarrow>
      (\<exists>r'. getitem_values kvs key pop' = Some (Inr (v, r'))))"
proof (induction t key pop and kvs key pop rule: getitem_any_level_getitem_values.induct)
  case (1 kvs key pop)
  show ?case
  proof (cases "map_of kvs key")
    case None
    with 1 show ?thesis
      by (cases "getitem_values kvs key pop") (auto split: sum.splits)
  next
    case (Some v)
    then show ?thesis by simp
  qed
next
  case (3 d ds key pop)
  then show ?case by (cases "getitem_any_level d key pop") auto
next
  case (8 k sub_dict rest key pop)
  show ?case
  proof (cases "getitem_any_level sub_dict key pop")
    case (Inl e)
    show ?thesis
    proof (cases e)
      case (KeyError m)
      with Inl 8 show ?thesis
        by (cases "getitem_values rest key pop") (auto split: sum.splits)
    qed (use Inl 8 in auto)
  next
    case (Inr r)
    with 8 show ?thesis by (cases r) auto
  qed
qed simp_all

text \<open>
  C9. When the key occurs at exactly one place of the document, a call with
  \<^verbatim>\<open>pop=True\<close> followed by a second call for the same key on the document as the first
  call left it makes the second call raise KeyError; and when the first call found the
  field, the document it leaves has the key nowhere.
\<close>

theorem pop_then_locate_fails:
  assumes "count_key key t = 1"
  shows "fails_KeyError (getitem_any_level (tree_after t (getitem_any_level t key True)) key pop)
       \<and> (\<forall>v t'. getitem_any_level t key True = Inr (v, t') \<longrightarrow> count_key key t' = 0)"
proof (cases "getitem_any_level t key True")
  case (Inl e)
  then obtain m where "e = KeyError m" using getitem_only_KeyError(1) by blast
  with Inl have "getitem_any_level t key pop = Inl (KeyError m)"
    using getitem_pop_value(1)[of t key True pop] by simp
  with Inl show ?thesis by (simp add: tree_after_def fails_KeyError_def)
next
  case (Inr r)
  obtain v t' where r: "r = (v, t')" by (cases r)
  with Inr assms have zero: "count_key key t' = 0"
    using count_after_pop(1)[of t key True v t'] by simp
  then obtain m where "getitem_any_level t' key pop = Inl (KeyError m)"
    using count_zero_fails(1) by blast
  with Inr r zero show ?thesis by (simp add: tree_after_def fails_KeyError_def)
qed

theorem pop_then_locate_fails_witness:
  "count_key ''k'' (JDict [(''a'', JDict [(''k'', JNum 1)]), (''b'', JNum 2)]) = 1
   \<and> fails_KeyError (getitem_any_level
        (tree_after (JDict [(''a'', JDict [(''k'', JNum 1)]), (''b'', JNum 2)])
           (getitem_any_level (JDict [(''a'', JDict [(''k'', JNum 1)]), (''b'', JNum 2)]) ''k'' True))
        ''k'' False)
   \<and> getitem_any_level (JDict [(''a'', JDict [(''k'', JNum 1)]), (''b'', JNum 2)]) ''k'' True =
       Inr (JNum 1, JDict [(''a'', JDict []), (''b'', JNum 2)])"
proof -
  have h: "count_key ''k'' (JDict [(''a'', JDict [(''k'', JNum 1)]), (''b'', JNum 2)]) = 1"
    by simp
  have found: "getitem_any_level (JDict [(''a'', JDict [(''k'', JNum 1)]), (''b'', JNum 2)]) ''k'' True =
       Inr (JNum 1, JDict [(''a'', JDict []), (''b'', JNum 2)])"
    by (simp add: dict_pop_def)
  from pop_then_locate_fails[OF h, of False] h found show ?thesis by blast
qed

section \<open>Results on the dataset tables\<close>

lemma err_bind_Inr_iff:
  "(err_bind m f = Inr r) = (\<exists>x. m = Inr x \<and> f x = Inr r)"
  by (cases m) auto

lemma unknown_series_identifiers:
  assumes "dict_getitem request (JStr ''DATASETNAME'') = Inr (JStr name)"
      and "lower name \<notin> set [''nipa'', ''niunderlyingdetail'', ''fixedassets'', ''gdpbyindustry'',
             ''underlyinggdpbyindustry'', ''ita'', ''iip'', ''intlservtrade'', ''mne'',
             ''inputoutput'', ''regional'']"
  shows "series_identifiers request =
           Inl (ValueError (''no series identifier for '' @ lower name))"
  using assms by (simp add: series_identifiers_def dataset_name_def)

lemma unknown_period_identifier:
  assumes "dict_getitem request (JStr ''DATASETNAME'') = Inr (JStr name)"
      and "lower name \<notin> set [''nipa'', ''niunderlyingdetail'', ''fixedassets'', ''gdpbyindustry'',
             ''underlyinggdpbyindustry'', ''ita'', ''iip'', ''intlservtrade'', ''mne'',
             ''inputoutput'', ''regional'']"
  shows "period_identifier request =
           Inl (ValueError (''no valid period identifier for '' @ lower name))"
  using assms by (simp add: period_identifier_def dataset_name_def)

text \<open>Without series identifiers nothing of a data response is built.\<close>

lemma set_unique_index_fails:
  "series_identifiers request = Inl e \<Longrightarrow> set_unique_index request df = Inl e"
  by (simp add: set_unique_index_def)

lemma construct_data_and_metadata_fails:
  assumes "series_identifiers request = Inl e"
  shows "construct_data_and_metadata request dims notes data \<noteq> Inr r"
  by (cases "DataFrame data")
     (simp_all add: construct_data_and_metadata_def set_unique_index_fails[OF assms])

lemma DataResponse_init_fails:
  assumes "series_identifiers request = Inl e"
  shows "DataResponse_init request result url doc \<noteq> Inr resp"
  using construct_data_and_metadata_fails[OF assms]
  by (auto simp: DataResponse_init_def err_bind_Inr_iff split: prod.splits)

text \<open>A response is returned only when every step before the constructor and the
  constructor itself succeeded.\<close>

lemma from_response_Inr_iff:
  "(from_response url doc = Inr r) =
     (\<exists>klass request result doc'. prepare doc = Inr (klass, request, result, doc') \<and>
        klass_init klass request result url doc' = Inr r)"
  by (cases "prepare doc")
     (auto simp: from_response_def split: sum.splits error.splits prod.splits)

text \<open>
  C8. When the \<^verbatim>\<open>DATASETNAME\<close> of the request, in lower case, is none of the eleven
  datasets of the identifier table, both identifier properties raise the ValueError that
  names the dataset (the specification's UnknownDataset), setting the row index fails
  with it for every table, the constructor of a data response never returns, and
  \<^verbatim>\<open>from_response\<close> ends with the ValueError that names the URL (or, on documents whose
  fields the model does not follow, with no answer of the model).
\<close>

theorem unknown_dataset_fails:
  assumes "dict_getitem request (JStr ''DATASETNAME'') = Inr (JStr name)"
      and "lower name \<notin> set [''nipa'', ''niunderlyingdetail'', ''fixedassets'', ''gdpbyindustry'',
             ''underlyinggdpbyindustry'', ''ita'', ''iip'', ''intlservtrade'', ''mne'',
             ''inputoutput'', ''regional'']"
  shows "series_identifiers request = Inl (ValueError (''no series identifier for '' @ lower name))
       \<and> period_identifier request =
           Inl (ValueError (''no valid period identifier for '' @ lower name))
       \<and> set_unique_index request df =
           Inl (ValueError (''no series identifier for '' @ lower name))
       \<and> (\<forall>r. DataResponse_init request result url doc' \<noteq> Inr r)
       \<and> (prepare doc = Inr (DataResponse, request, result, doc') \<longrightarrow>
            (\<exists>s. from_response url doc = Inl (OutsideModel s)) \<or>
            from_response url doc =
              Inl (ValueError (''could not create BEAResponse. url is '' @ [CHR 0x0A] @ url)))"
proof -
  note s = unknown_series_identifiers[OF assms]
  have "\<forall>r. DataResponse_init request result url doc' \<noteq> Inr r"
    using DataResponse_init_fails[OF s] by blast
  moreover from this have "prepare doc = Inr (DataResponse, request, result, doc') \<longrightarrow>
            (\<exists>s. from_response url doc = Inl (OutsideModel s)) \<or>
            from_response url doc =
              Inl (ValueError (''could not create BEAResponse. url is '' @ [CHR 0x0A] @ url))"
    by (cases "DataResponse_init request result url doc'")
       (auto simp: from_response_def split: error.splits)
  ultimately show ?thesis
    using s unknown_period_identifier[OF assms] set_unique_index_fails[OF s] by simp
qed

theorem unknown_dataset_fails_witness:
  "dict_getitem [(JStr ''METHOD'', JStr ''GETDATA''), (JStr ''DATASETNAME'', JStr ''Census'')]
     (JStr ''DATASETNAME'') = Inr (JStr ''Census'')
   \<and> lower ''Census'' = ''census''
   \<and> series_identifiers [(JStr ''METHOD'', JStr ''GETDATA''), (JStr ''DATASETNAME'', JStr ''Census'')] =
       Inl (ValueError ''no series identifier for census'')
   \<and> period_identifier [(JStr ''METHOD'', JStr ''GETDATA''), (JStr ''DATASETNAME'', JStr ''Census'')] =
       Inl (ValueError ''no valid period identifier for census'')
   \<and> from_response example_url
        (data_document ''Census'' nipa_dimensions
           [observation ''A'' ''2020'' ''5'', observation ''B'' ''2020'' ''6'']) =
       Inl (ValueError (''could not create BEAResponse. url is '' @ [CHR 0x0A] @ example_url))"
proof -
  have h1: "dict_getitem [(JStr ''METHOD'', JStr ''GETDATA''), (JStr ''DATASETNAME'', JStr ''Census'')]
     (JStr ''DATASETNAME'') = Inr (JStr ''Census'')"
    by (simp add: dict_getitem_def)
  have low: "lower ''Census'' = ''census''"
    by code_simp
  have h2: "lower ''Census'' \<notin> set [''nipa'', ''niunderlyingdetail'', ''fixedassets'',
             ''gdpbyindustry'', ''underlyinggdpbyindustry'', ''ita'', ''iip'', ''intlservtrade'',
             ''mne'', ''inputoutput'', ''regional'']"
    by (simp add: low)
  have run: "from_response example_url
        (data_document ''Census'' nipa_dimensions
           [observation ''A'' ''2020'' ''5'', observation ''B'' ''2020'' ''6'']) =
       Inl (ValueError (''could not create BEAResponse. url is '' @ [CHR 0x0A] @ example_url))"
    by code_simp
  from unknown_dataset_fails[OF h1 h2] have
    "series_identifiers [(JStr ''METHOD'', JStr ''GETDATA''), (JStr ''DATASETNAME'', JStr ''Census'')] =
       Inl (ValueError (''no series identifier for '' @ lower ''Census''))"
    "period_identifier [(JStr ''METHOD'', JStr ''GETDATA''), (JStr ''DATASETNAME'', JStr ''Census'')] =
       Inl (ValueError (''no valid period identifier for '' @ lower ''Census''))"
    by blast+
  with h1 low run show ?thesis by simp
qed

section \<open>Results on failures of response building\<close>

text \<open>
  C3. The claim: an error block that lacks the code or the description makes response
  building fail. On the code: the KeyError that the constructor of BEAAPIError raises for
  the missing field is caught by the handler meant for a document without an error
  block, and building goes on. A dataset-list document that also holds the error block
  \<^verbatim>\<open>{"APIErrorCode": "1"}\<close> yields a dataset-list response.
\<close>

theorem incomplete_error_block_is_ignored:
  "error_block dataset_list_document_with_error = Inr ()
   \<and> from_response example_url dataset_list_document_with_error =
       Inr (BEAResponse DatasetListResponse [(JStr ''METHOD'', JStr ''GETDATASETLIST'')]
             (JDict [(''Dataset'', JList [JDict [(''DatasetName'', JStr ''NIPA''),
                (''DatasetDescription'', JStr ''Standard NIPA tables'')]])])
             example_url (Datasets [(JStr ''NIPA'', JStr ''Standard NIPA tables'')]))"
  by code_simp

text \<open>
  C7. The claim: every fatal failure surfaces as one error whose message includes the
  URL. It fails for an embedded API error: the document of the specification's own
  example raises BEAAPIError with the code and the description, and the URL is no part
  of that message.
\<close>

theorem api_error_message_lacks_url:
  "from_response example_url api_error_document =
     Inl (BEAAPIError ''API Code: 200. Description: bad request'')
   \<and> \<not> message_includes ''API Code: 200. Description: bad request'' example_url"
  by code_simp

lemma message_includes_suffix: "message_includes (p @ url) url"
  unfolding message_includes_def list_ex_iff
  by (rule bexI[of _ "length p"]) simp_all

text \<open>
  The errors of the steps before the constructor. A lookup that fails raises one of the
  two KeyErrors of the locator, and it fails exactly when the field is not on the search
  path; a document without an error block passes the first step.
\<close>

lemma getitem_KeyError_message:
  "getitem_any_level t key pop = Inl e \<Longrightarrow>
     e = KeyError (JStr key) \<or>
     e = KeyError (JStr (''key '' @ key @ '' was not found at any level of provided dict''))"
  "getitem_values kvs key pop \<noteq> Some (Inl e)"
  by (induction t key pop and kvs key pop arbitrary: e and e
        rule: getitem_any_level_getitem_values.induct)
     (auto split: option.splits sum.splits error.splits if_splits)

lemma not_on_search_path_fails:
  assumes "\<not> on_search_path key t"
  shows "getitem_any_level t key pop = Inl (KeyError (JStr key)) \<or>
         getitem_any_level t key pop =
           Inl (KeyError (JStr (''key '' @ key @ '' was not found at any level of provided dict'')))"
proof (cases "getitem_any_level t key pop")
  case (Inl e)
  with getitem_KeyError_message(1)[OF Inl] show ?thesis by auto
next
  case (Inr r)
  with assms located_iff_on_search_path(1)[of t key pop] show ?thesis by auto
qed

lemma no_error_block:
  assumes "\<not> on_search_path ''Error'' doc"
  shows "error_block doc = Inr ()"
  using not_on_search_path_fails[OF assms, of False]
  by (auto simp: error_block_def)

lemma unsupported_method:
  assumes "error_block doc = Inr ()"
      and "getitem_any_level doc ''RequestParam'' True = Inr (rp, doc')"
      and "py_iter rp = Inr pdicts"
      and "request_loop pdicts [] = Inr request"
      and "getitem_any_level doc' ''Results'' False = Inr (result, d)"
      and "dict_getitem request (JStr ''METHOD'') = Inr (JStr m)"
      and "m \<notin> set [''GETDATASETLIST'', ''GETPARAMETERLIST'', ''GETPARAMETERVALUES'',
                     ''GETPARAMETERVALUESFILTERED'', ''GETDATA'']"
  shows "from_response url doc = Inl (KeyError (JStr m))"
  using assms
  by (simp add: from_response_def prepare_def response_classes_def dict_getitem_def)

lemma missing_request_parameters:
  assumes "error_block doc = Inr ()" and "\<not> on_search_path ''RequestParam'' doc"
  shows "from_response url doc = Inl (KeyError (JStr ''RequestParam'')) \<or>
         from_response url doc =
           Inl (KeyError (JStr ''key RequestParam was not found at any level of provided dict''))"
  using not_on_search_path_fails[OF assms(2), of True] assms(1)
  by (auto simp: from_response_def prepare_def)

lemma missing_results:
  assumes "error_block doc = Inr ()"
      and "getitem_any_level doc ''RequestParam'' True = Inr (rp, doc')"
      and "py_iter rp = Inr pdicts"
      and "request_loop pdicts [] = Inr request"
      and "\<not> on_search_path ''Results'' doc'"
  shows "from_response url doc = Inl (KeyError (JStr ''Results'')) \<or>
         from_response url doc =
           Inl (KeyError (JStr ''key Results was not found at any level of provided dict''))"
  using not_on_search_path_fails[OF assms(5), of False] assms(1-4)
  by (auto simp: from_response_def prepare_def)

lemma missing_method:
  assumes "error_block doc = Inr ()"
      and "getitem_any_level doc ''RequestParam'' True = Inr (rp, doc')"
      and "py_iter rp = Inr pdicts"
      and "request_loop pdicts [] = Inr request"
      and "getitem_any_level doc' ''Results'' False = Inr (result, d)"
      and "map_of request (JStr ''METHOD'') = None"
  shows "from_response url doc = Inl (KeyError (JStr ''METHOD''))"
  using assms
  by (simp add: from_response_def prepare_def dict_getitem_def)

text \<open>
  C7, as amended. Whatever the constructor of the response class raises (unknown dataset,
  malformed field) is replaced by one ValueError whose message ends with the URL. An
  error block with a code and a description (strings) raises BEAAPIError with the
  message made of the two. For a document that passed the error block, the steps before
  the constructor abort with the KeyError of their lookup, which does not hold the URL:
  a method \<open>m\<close> that is none of the five names of the table raises \<^verbatim>\<open>KeyError(m)\<close>; a
  document in which the locator does not reach \<^verbatim>\<open>RequestParam\<close>, or in which it does
  not reach \<^verbatim>\<open>Results\<close> once the parameters are removed, raises the KeyError of the
  locator for that field; request parameters without \<^verbatim>\<open>METHOD\<close> raise
  \<^verbatim>\<open>KeyError('METHOD')\<close>. Any error of these steps other than AttributeError surfaces
  unchanged. A response object is returned only when every step succeeded.
\<close>

theorem fatal_failures:
  "(prepare doc = Inr (klass, request, result, doc') \<and>
    klass_init klass request result url doc' = Inl e \<and> (\<forall>s. e \<noteq> OutsideModel s) \<longrightarrow>
      from_response url doc =
        Inl (ValueError (''could not create BEAResponse. url is '' @ [CHR 0x0A] @ url)) \<and>
      message_includes (''could not create BEAResponse. url is '' @ [CHR 0x0A] @ url) url)
   \<and> (getitem_any_level doc ''Error'' False = Inr (err, d0) \<and>
      getitem_any_level err ''APIErrorCode'' False = Inr (JStr code, d1) \<and>
      getitem_any_level err ''APIErrorDescription'' False = Inr (JStr desc, d2) \<longrightarrow>
      from_response url doc =
        Inl (BEAAPIError (''API Code: '' @ code @ ''. Description: '' @ desc)))
   \<and> (error_block doc = Inr () \<and>
      getitem_any_level doc ''RequestParam'' True = Inr (rp, doc1) \<and>
      py_iter rp = Inr pdicts \<and>
      request_loop pdicts [] = Inr request1 \<and>
      getitem_any_level doc1 ''Results'' False = Inr (result1, d3) \<and>
      dict_getitem request1 (JStr ''METHOD'') = Inr (JStr m) \<and>
      m \<notin> set [''GETDATASETLIST'', ''GETPARAMETERLIST'', ''GETPARAMETERVALUES'',
                ''GETPARAMETERVALUESFILTERED'', ''GETDATA''] \<longrightarrow>
      from_response url doc = Inl (KeyError (JStr m)))
   \<and> (error_block doc = Inr () \<and> \<not> on_search_path ''RequestParam'' doc \<longrightarrow>
      from_response url doc = Inl (KeyError (JStr ''RequestParam'')) \<or>
      from_response url doc =
        Inl (KeyError (JStr ''key RequestParam was not found at any level of provided dict'')))
   \<and> (error_block doc = Inr () \<and>
      getitem_any_level doc ''RequestParam'' True = Inr (rp, doc1) \<and>
      py_iter rp = Inr pdicts \<and>
      request_loop pdicts [] = Inr request1 \<and>
      \<not> on_search_path ''Results'' doc1 \<longrightarrow>
      from_response url doc = Inl (KeyError (JStr ''Results'')) \<or>
      from_response url doc =
        Inl (KeyError (JStr ''key Results was not found at any level of provided dict'')))
   \<and> (error_block doc = Inr () \<and>
      getitem_any_level doc ''RequestParam'' True = Inr (rp, doc1) \<and>
      py_iter rp = Inr pdicts \<and>
      request_loop pdicts [] = Inr request1 \<and>
      getitem_any_level doc1 ''Results'' False = Inr (result1, d3) \<and>
      map_of request1 (JStr ''METHOD'') = None \<longrightarrow>
      from_response url doc = Inl (KeyError (JStr ''METHOD'')))
   \<and> (prepare doc = Inl e' \<and> (\<forall>s. e' \<noteq> AttributeError s) \<longrightarrow> from_response url doc = Inl e')
   \<and> (from_response url doc = Inr r \<longrightarrow>
        (\<exists>klass request result doc'. prepare doc = Inr (klass, request, result, doc') \<and>
           klass_init klass request result url doc' = Inr r))"
proof -
  have constructor: "from_response url doc =
        Inl (ValueError (''could not create BEAResponse. url is '' @ [CHR 0x0A] @ url)) \<and>
      message_includes (''could not create BEAResponse. url is '' @ [CHR 0x0A] @ url) url"
    if a: "prepare doc = Inr (klass, request, result, doc') \<and>
      klass_init klass request result url doc' = Inl e \<and> (\<forall>s. e \<noteq> OutsideModel s)"
  proof
    from a show "from_response url doc =
        Inl (ValueError (''could not create BEAResponse. url is '' @ [CHR 0x0A] @ url))"
      by (cases e) (simp_all add: from_response_def)
    show "message_includes (''could not create BEAResponse. url is '' @ [CHR 0x0A] @ url) url"
      using message_includes_suffix[of "''could not create BEAResponse. url is '' @ [CHR 0x0A]" url]
      by simp
  qed
  have api: "from_response url doc =
        Inl (BEAAPIError (''API Code: '' @ code @ ''. Description: '' @ desc))"
    if "getitem_any_level doc ''Error'' False = Inr (err, d0) \<and>
      getitem_any_level err ''APIErrorCode'' False = Inr (JStr code, d1) \<and>
      getitem_any_level err ''APIErrorDescription'' False = Inr (JStr desc, d2)"
    using that
    by (simp add: from_response_def prepare_def error_block_def BEAAPIError_init_def)
  have unsupported: "from_response url doc = Inl (KeyError (JStr m))"
    if "error_block doc = Inr () \<and>
      getitem_any_level doc ''RequestParam'' True = Inr (rp, doc1) \<and>
      py_iter rp = Inr pdicts \<and>
      request_loop pdicts [] = Inr request1 \<and>
      getitem_any_level doc1 ''Results'' False = Inr (result1, d3) \<and>
      dict_getitem request1 (JStr ''METHOD'') = Inr (JStr m) \<and>
      m \<notin> set [''GETDATASETLIST'', ''GETPARAMETERLIST'', ''GETPARAMETERVALUES'',
                ''GETPARAMETERVALUESFILTERED'', ''GETDATA'']"
    using that unsupported_method[of doc rp doc1 pdicts request1 result1 d3 m url] by blast
  have no_parameters: "from_response url doc = Inl (KeyError (JStr ''RequestParam'')) \<or>
      from_response url doc =
        Inl (KeyError (JStr ''key RequestParam was not found at any level of provided dict''))"
    if "error_block doc = Inr () \<and> \<not> on_search_path ''RequestParam'' doc"
    using that missing_request_parameters[of doc url] by blast
  have no_results: "from_response url doc = Inl (KeyError (JStr ''Results'')) \<or>
      from_response url doc =
        Inl (KeyError (JStr ''key Results was not found at any level of provided dict''))"
    if "error_block doc = Inr () \<and>
      getitem_any_level doc ''RequestParam'' True = Inr (rp, doc1) \<and>
      py_iter rp = Inr pdicts \<and>
      request_loop pdicts [] = Inr request1 \<and>
      \<not> on_search_path ''Results'' doc1"
    using that missing_results[of doc rp doc1 pdicts request1 url] by blast
  have no_method: "from_response url doc = Inl (KeyError (JStr ''METHOD''))"
    if "error_block doc = Inr () \<and>
      getitem_any_level doc ''RequestParam'' True = Inr (rp, doc1) \<and>
      py_iter rp = Inr pdicts \<and>
      request_loop pdicts [] = Inr request1 \<and>
      getitem_any_level doc1 ''Results'' False = Inr (result1, d3) \<and>
      map_of request1 (JStr ''METHOD'') = None"
    using that missing_method[of doc rp doc1 pdicts request1 result1 d3 url] by blast
  have earlier: "from_response url doc = Inl e'"
    if "prepare doc = Inl e' \<and> (\<forall>s. e' \<noteq> AttributeError s)"
    using that by (cases e') (simp_all add: from_response_def)
  have returned: "\<exists>klass request result doc'. prepare doc = Inr (klass, request, result, doc') \<and>
           klass_init klass request result url doc' = Inr r"
    if "from_response url doc = Inr r"
    using that by (simp add: from_response_Inr_iff)
  from constructor api unsupported no_parameters no_results no_method earlier returned
  show ?thesis by blast
qed

theorem fatal_failures_witness:
  "prepare dataset_list_document_without_rows =
     Inr (DatasetListResponse, [(JStr ''METHOD'', JStr ''GETDATASETLIST'')], JDict [],
          JDict [(''BEAAPI'', JDict [(''Request'', JDict []), (''Results'', JDict [])])])
   \<and> klass_init DatasetListResponse [(JStr ''METHOD'', JStr ''GETDATASETLIST'')] (JDict [])
        example_url (JDict [(''BEAAPI'', JDict [(''Request'', JDict []), (''Results'', JDict [])])]) =
       Inl (KeyError (JStr ''Dataset''))
   \<and> from_response example_url dataset_list_document_without_rows =
       Inl (ValueError (''could not create BEAResponse. url is '' @ [CHR 0x0A] @ example_url))
   \<and> message_includes (''could not create BEAResponse. url is '' @ [CHR 0x0A] @ example_url)
        example_url
   \<and> from_response example_url api_error_document =
       Inl (BEAAPIError (''API Code: '' @ ''200'' @ ''. Description: '' @ ''bad request''))
   \<and> error_block (parameter_values_document ''GETFOO'') = Inr ()
   \<and> from_response example_url (parameter_values_document ''GETFOO'') =
       Inl (KeyError (JStr ''GETFOO''))
   \<and> on_search_path ''RequestParam'' document_without_request_parameters = False
   \<and> (from_response example_url document_without_request_parameters =
         Inl (KeyError (JStr ''RequestParam'')) \<or>
       from_response example_url document_without_request_parameters =
         Inl (KeyError (JStr ''key RequestParam was not found at any level of provided dict'')))
   \<and> on_search_path ''Results'' (JDict [(''BEAAPI'', JDict [(''Request'', JDict [])])]) = False
   \<and> (from_response example_url document_without_results = Inl (KeyError (JStr ''Results'')) \<or>
       from_response example_url document_without_results =
         Inl (KeyError (JStr ''key Results was not found at any level of provided dict'')))
   \<and> from_response example_url document_without_method = Inl (KeyError (JStr ''METHOD''))
   \<and> prepare (parameter_values_document ''GETFOO'') = Inl (KeyError (JStr ''GETFOO''))
   \<and> (\<exists>klass request result doc'.
         prepare (parameter_values_document ''GETPARAMETERVALUES'') =
           Inr (klass, request, result, doc') \<and>
         klass_init klass request result example_url doc' =
           Inr (BEAResponse ParameterValuesResponse
                 [(JStr ''METHOD'', JStr ''GETPARAMETERVALUES'')]
                 (JDict [(''ParamValue'', JList [JDict [(''Key'', JStr ''A''), (''Desc'', JStr ''Annual'')]])])
                 example_url (Parameters [(JStr ''A'', JStr ''Annual'')])))"
proof -
  let ?block = "JDict [(''ParamValue'', JList [JDict [(''Key'', JStr ''A''), (''Desc'', JStr ''Annual'')]])]"
  let ?rest = "JDict [(''BEAAPI'', JDict [(''Request'', JDict []), (''Results'', ?block)])]"
  have p: "prepare dataset_list_document_without_rows =
     Inr (DatasetListResponse, [(JStr ''METHOD'', JStr ''GETDATASETLIST'')], JDict [],
          JDict [(''BEAAPI'', JDict [(''Request'', JDict []), (''Results'', JDict [])])])"
    by code_simp
  have k: "klass_init DatasetListResponse [(JStr ''METHOD'', JStr ''GETDATASETLIST'')] (JDict [])
        example_url (JDict [(''BEAAPI'', JDict [(''Request'', JDict []), (''Results'', JDict [])])]) =
       Inl (KeyError (JStr ''Dataset''))"
    by code_simp
  have e0: "getitem_any_level api_error_document ''Error'' False =
      Inr (JDict [(''APIErrorCode'', JStr ''200''), (''APIErrorDescription'', JStr ''bad request'')],
           api_error_document)"
    by code_simp
  have e1: "getitem_any_level
      (JDict [(''APIErrorCode'', JStr ''200''), (''APIErrorDescription'', JStr ''bad request'')])
      ''APIErrorCode'' False =
      Inr (JStr ''200'',
           JDict [(''APIErrorCode'', JStr ''200''), (''APIErrorDescription'', JStr ''bad request'')])"
    by code_simp
  have e2: "getitem_any_level
      (JDict [(''APIErrorCode'', JStr ''200''), (''APIErrorDescription'', JStr ''bad request'')])
      ''APIErrorDescription'' False =
      Inr (JStr ''bad request'',
           JDict [(''APIErrorCode'', JStr ''200''), (''APIErrorDescription'', JStr ''bad request'')])"
    by code_simp
  have f0: "error_block (parameter_values_document ''GETFOO'') = Inr ()"
    by code_simp
  have f1: "getitem_any_level (parameter_values_document ''GETFOO'') ''RequestParam'' True =
      Inr (JList [parameter ''METHOD'' ''GETFOO''], ?rest)"
    by code_simp
  have f2: "py_iter (JList [parameter ''METHOD'' ''GETFOO'']) = Inr [parameter ''METHOD'' ''GETFOO'']"
    by simp
  have f3: "request_loop [parameter ''METHOD'' ''GETFOO''] [] = Inr [(JStr ''METHOD'', JStr ''GETFOO'')]"
    by code_simp
  have f4: "getitem_any_level ?rest ''Results'' False = Inr (?block, ?rest)"
    by code_simp
  have f5: "dict_getitem [(JStr ''METHOD'', JStr ''GETFOO'')] (JStr ''METHOD'') = Inr (JStr ''GETFOO'')"
    by code_simp
  have f6: "''GETFOO'' \<notin> set [''GETDATASETLIST'', ''GETPARAMETERLIST'', ''GETPARAMETERVALUES'',
                ''GETPARAMETERVALUESFILTERED'', ''GETDATA'']"
    by simp
  have g0: "error_block document_without_request_parameters = Inr ()"
    by code_simp
  have g1: "on_search_path ''RequestParam'' document_without_request_parameters = False"
    by code_simp
  have h0: "error_block document_without_results = Inr ()"
    by code_simp
  have h1: "getitem_any_level document_without_results ''RequestParam'' True =
      Inr (JList [parameter ''METHOD'' ''GETDATASETLIST''],
           JDict [(''BEAAPI'', JDict [(''Request'', JDict [])])])"
    by code_simp
  have h2: "py_iter (JList [parameter ''METHOD'' ''GETDATASETLIST'']) =
      Inr [parameter ''METHOD'' ''GETDATASETLIST'']"
    by simp
  have h3: "request_loop [parameter ''METHOD'' ''GETDATASETLIST''] [] =
      Inr [(JStr ''METHOD'', JStr ''GETDATASETLIST'')]"
    by code_simp
  have h4: "on_search_path ''Results'' (JDict [(''BEAAPI'', JDict [(''Request'', JDict [])])]) = False"
    by code_simp
  have m0: "error_block document_without_method = Inr ()"
    by code_simp
  have m1: "getitem_any_level document_without_method ''RequestParam'' True =
      Inr (JList [parameter ''DATASETNAME'' ''NIPA''],
           JDict [(''BEAAPI'', JDict [(''Request'', JDict []), (''Results'', JDict [])])])"
    by code_simp
  have m2: "py_iter (JList [parameter ''DATASETNAME'' ''NIPA'']) =
      Inr [parameter ''DATASETNAME'' ''NIPA'']"
    by simp
  have m3: "request_loop [parameter ''DATASETNAME'' ''NIPA''] [] =
      Inr [(JStr ''DATASETNAME'', JStr ''NIPA'')]"
    by code_simp
  have m4: "getitem_any_level
      (JDict [(''BEAAPI'', JDict [(''Request'', JDict []), (''Results'', JDict [])])])
      ''Results'' False =
      Inr (JDict [], JDict [(''BEAAPI'', JDict [(''Request'', JDict []), (''Results'', JDict [])])])"
    by code_simp
  have m5: "map_of [(JStr ''DATASETNAME'', JStr ''NIPA'')] (JStr ''METHOD'') = None"
    by simp
  have u: "prepare (parameter_values_document ''GETFOO'') = Inl (KeyError (JStr ''GETFOO''))"
    by code_simp
  have r: "from_response example_url (parameter_values_document ''GETPARAMETERVALUES'') =
      Inr (BEAResponse ParameterValuesResponse
                 [(JStr ''METHOD'', JStr ''GETPARAMETERVALUES'')]
                 (JDict [(''ParamValue'', JList [JDict [(''Key'', JStr ''A''), (''Desc'', JStr ''Annual'')]])])
                 example_url (Parameters [(JStr ''A'', JStr ''Annual'')]))"
    by code_simp
  have a: "from_response example_url dataset_list_document_without_rows =
       Inl (ValueError (''could not create BEAResponse. url is '' @ [CHR 0x0A] @ example_url))
     \<and> message_includes (''could not create BEAResponse. url is '' @ [CHR 0x0A] @ example_url)
        example_url"
    using fatal_failures[where doc = dataset_list_document_without_rows
        and klass = DatasetListResponse and url = example_url
        and e = "KeyError (JStr ''Dataset'')"] p k
    by simp
  have b: "from_response example_url api_error_document =
       Inl (BEAAPIError (''API Code: '' @ ''200'' @ ''. Description: '' @ ''bad request''))"
    using fatal_failures[where doc = api_error_document and url = example_url
        and code = "''200''" and desc = "''bad request''"] e0 e1 e2
    by blast
  have c: "from_response example_url (parameter_values_document ''GETFOO'') =
       Inl (KeyError (JStr ''GETFOO''))"
    using fatal_failures[where doc = "parameter_values_document ''GETFOO''" and url = example_url
        and m = "''GETFOO''"] f0 f1 f2 f3 f4 f5 f6
    by blast
  have c': "from_response example_url (parameter_values_document ''GETFOO'') =
       Inl (KeyError (JStr ''GETFOO''))"
    using fatal_failures[where doc = "parameter_values_document ''GETFOO''" and url = example_url
        and e' = "KeyError (JStr ''GETFOO'')"] u
    by simp
  have g: "from_response example_url document_without_request_parameters =
         Inl (KeyError (JStr ''RequestParam'')) \<or>
       from_response example_url document_without_request_parameters =
         Inl (KeyError (JStr ''key RequestParam was not found at any level of provided dict''))"
    using fatal_failures[where doc = document_without_request_parameters and url = example_url]
      g0 g1
    by blast
  have h: "from_response example_url document_without_results = Inl (KeyError (JStr ''Results'')) \<or>
       from_response example_url document_without_results =
         Inl (KeyError (JStr ''key Results was not found at any level of provided dict''))"
    using fatal_failures[where doc = document_without_results and url = example_url]
      h0 h1 h2 h3 h4
    by blast
  have n: "from_response example_url document_without_method = Inl (KeyError (JStr ''METHOD''))"
    using fatal_failures[where doc = document_without_method and url = example_url]
      m0 m1 m2 m3 m4 m5
    by blast
  have d: "\<exists>klass request result doc'.
         prepare (parameter_values_document ''GETPARAMETERVALUES'') =
           Inr (klass, request, result, doc') \<and>
         klass_init klass request result example_url doc' =
           Inr (BEAResponse ParameterValuesResponse
                 [(JStr ''METHOD'', JStr ''GETPARAMETERVALUES'')]
                 (JDict [(''ParamValue'', JList [JDict [(''Key'', JStr ''A''), (''Desc'', JStr ''Annual'')]])])
                 example_url (Parameters [(JStr ''A'', JStr ''Annual'')]))"
    using fatal_failures[where doc = "parameter_values_document ''GETPARAMETERVALUES''"
        and url = example_url, THEN conjunct2, THEN conjunct2, THEN conjunct2, THEN conjunct2,
        THEN conjunct2, THEN conjunct2, THEN conjunct2] r
    by (rule mp)
  from p k a b f0 c g1 g h4 h n u d show ?thesis by blast
qed

text \<open>
  C10. The table of response classes has five method names: besides the four of the
  four response kinds it has \<^verbatim>\<open>GETPARAMETERVALUESFILTERED\<close>, which it maps to the class
  of \<^verbatim>\<open>GETPARAMETERVALUES\<close>; a document with that method yields a parameter-values
  response.
\<close>

theorem filtered_parameter_values_method:
  "map fst response_classes =
     [JStr ''GETDATASETLIST'', JStr ''GETPARAMETERLIST'', JStr ''GETPARAMETERVALUES'',
      JStr ''GETPARAMETERVALUESFILTERED'', JStr ''GETDATA'']
   \<and> dict_getitem response_classes (JStr ''GETPARAMETERVALUESFILTERED'') =
       Inr ParameterValuesResponse
   \<and> dict_getitem response_classes (JStr ''GETPARAMETERVALUES'') = Inr ParameterValuesResponse
   \<and> klass_init ParameterValuesResponse =
       (\<lambda>request result url bea_json. ParameterValuesResponse_init request result url)
   \<and> from_response example_url (parameter_values_document ''GETPARAMETERVALUESFILTERED'') =
       Inr (BEAResponse ParameterValuesResponse
             [(JStr ''METHOD'', JStr ''GETPARAMETERVALUESFILTERED'')]
             (JDict [(''ParamValue'', JList [JDict [(''Key'', JStr ''A''), (''Desc'', JStr ''Annual'')]])])
             example_url (Parameters [(JStr ''A'', JStr ''Annual'')]))"
proof -
  have "klass_init ParameterValuesResponse =
       (\<lambda>request result url bea_json. ParameterValuesResponse_init request result url)"
    by (intro ext) simp
  moreover have
    "from_response example_url (parameter_values_document ''GETPARAMETERVALUESFILTERED'') =
       Inr (BEAResponse ParameterValuesResponse
             [(JStr ''METHOD'', JStr ''GETPARAMETERVALUESFILTERED'')]
             (JDict [(''ParamValue'', JList [JDict [(''Key'', JStr ''A''), (''Desc'', JStr ''Annual'')]])])
             example_url (Parameters [(JStr ''A'', JStr ''Annual'')]))"
    by code_simp
  ultimately show ?thesis
    by (simp add: response_classes_def dict_getitem_def)
qed

section \<open>Results on the composite key\<close>

text \<open>Columns of a table made from rows of strings.\<close>

lemma set_uniq_fold:
  "set (fold (\<lambda>x acc. if x \<in> set acc then acc else acc @ [x]) xs acc) = set acc \<union> set xs"
  by (induction xs arbitrary: acc) auto

lemma set_uniq: "set (uniq xs) = set xs"
  by (simp add: uniq_def set_uniq_fold)

lemma map_of_key_map:
  "map_of (map (\<lambda>c. (c, f c)) cs) i = (if i \<in> set cs then Some (f i) else None)"
  by (induction cs) auto

lemma frame_of_rows_getitem:
  assumes "rows \<noteq> []" and "\<forall>row \<in> set rows. map_of row i \<noteq> None"
  shows "frame_getitem (frame_of_rows rows) i = Inr (map (\<lambda>row. CStr (field row i)) rows)"
proof -
  obtain r where r: "r \<in> set rows" using assms(1) by (cases rows) auto
  with assms(2) have "map_of r i \<noteq> None" by blast
  then have "i \<in> fst ` set r" by (simp add: map_of_eq_None_iff)
  with r have "i \<in> set (concat (map (map fst) rows))" by auto
  moreover have "map (\<lambda>r. case map_of r i of Some s \<Rightarrow> CStr s | None \<Rightarrow> NaN) rows
      = map (\<lambda>row. CStr (field row i)) rows"
    using assms(2) by (auto simp: field_def split: option.splits)
  ultimately show ?thesis
    by (simp add: frame_getitem_def frame_of_rows_def map_of_key_map set_uniq)
qed

lemma map_of_dict_set:
  "map_of (dict_set k v d) k' = (if k' = k then Some v else map_of d k')"
  by (induction d) auto

lemma dict_set_twice: "dict_set k v' (dict_set k v d) = dict_set k v' d"
  by (induction d) auto

lemma frame_getitem_setitem:
  "frame_getitem (frame_setitem df c col) c' =
     (if c' = c then Inr col else frame_getitem df c')"
  by (simp add: frame_getitem_def frame_setitem_def map_of_dict_set)

lemma frame_setitem_twice:
  "frame_setitem (frame_setitem df c col) c col' = frame_setitem df c col'"
  by (simp add: frame_setitem_def dict_set_twice)

lemma string_column_CStr:
  "rows \<noteq> [] \<Longrightarrow> string_column (map (\<lambda>row. CStr (f row)) rows)"
  by (cases rows) (auto simp: string_column_def is_CStr_def is_CInt_def list_ex_iff)

lemma str_accessor_CStr:
  "rows \<noteq> [] \<Longrightarrow>
   str_accessor (map (\<lambda>row. CStr (f row)) rows) = Inr (map (\<lambda>row. CStr (f row)) rows)"
  by (simp add: str_accessor_def string_column_CStr)

lemma str_cat_CStr:
  "rows \<noteq> [] \<Longrightarrow>
   str_cat (map (\<lambda>row. CStr (f row)) rows) (map (\<lambda>row. CStr (g row)) rows) sep =
     Inr (map (\<lambda>row. CStr (f row @ sep @ g row)) rows)"
  by (simp add: str_cat_def string_column_CStr map2_map_map)

text \<open>The two lists of identifier columns that the table has.\<close>

lemma multi_identifiers:
  assumes "series_identifiers request = Inr (Multi ids)"
  shows "ids = [''SeriesID'', ''RowCode'', ''ColumnCode''] \<or> ids = [''RowCode'', ''ColCode'']"
  using assms
  by (cases "dataset_name request") (auto simp: series_identifiers_def split: if_splits)

text \<open>The loop appends one identifier after the other to the index column.\<close>

lemma index_loop_keys:
  assumes "rows \<noteq> []"
      and "\<forall>i \<in> set ids. i \<noteq> ''index'' \<and> (\<forall>row \<in> set rows. map_of row i \<noteq> None)"
  shows "index_loop
           (frame_setitem (frame_of_rows rows) ''index'' (map (\<lambda>row. CStr (f row)) rows)) ids =
     Inr (frame_setitem (frame_of_rows rows) ''index''
            (map (\<lambda>row. CStr (foldl (\<lambda>acc i. acc @ ''_'' @ field row i) (f row) ids)) rows))"
  using assms(2)
proof (induction ids arbitrary: f)
  case Nil
  then show ?case by simp
next
  case (Cons i ids)
  then have i: "i \<noteq> ''index''" "\<forall>row \<in> set rows. map_of row i \<noteq> None" by auto
  have "index_loop
          (frame_setitem (frame_of_rows rows) ''index'' (map (\<lambda>row. CStr (f row)) rows)) (i # ids)
      = index_loop (frame_setitem (frame_of_rows rows) ''index''
          (map (\<lambda>row. CStr (f row @ ''_'' @ field row i)) rows)) ids"
    using assms(1) i
    by (simp add: frame_getitem_setitem str_accessor_CStr frame_of_rows_getitem str_cat_CStr
          frame_setitem_twice)
  also have "\<dots> = Inr (frame_setitem (frame_of_rows rows) ''index''
      (map (\<lambda>row. CStr (foldl (\<lambda>acc i. acc @ ''_'' @ field row i)
                          (f row @ ''_'' @ field row i) ids)) rows))"
    using Cons.IH[of "\<lambda>row. f row @ ''_'' @ field row i"] Cons.prems by simp
  finally show ?case by simp
qed

lemma foldl_append_prefix:
  "foldl (\<lambda>acc y. acc @ sep @ y) (a @ b) ys = a @ foldl (\<lambda>acc y. acc @ sep @ y) b ys"
  by (induction ys arbitrary: b) auto

lemma join_foldl: "join sep (x # xs) = foldl (\<lambda>acc y. acc @ sep @ y) x xs"
proof (induction xs arbitrary: x)
  case Nil
  then show ?case by simp
next
  case (Cons y ys)
  have "join sep (x # y # ys) = x @ sep @ foldl (\<lambda>acc y. acc @ sep @ y) y ys"
    using Cons.IH[of y] by simp
  also have "\<dots> = foldl (\<lambda>acc y. acc @ sep @ y) ((x @ sep) @ y) ys"
    by (simp only: foldl_append_prefix append_assoc)
  finally show ?case by simp
qed

lemma composite_key_foldl:
  "composite_key (i0 # ids) row =
     CStr (foldl (\<lambda>acc i. acc @ ''_'' @ field row i) (field row i0) ids)"
  by (simp add: composite_key_def join_foldl foldl_map)

lemma set_unique_index_multi:
  assumes ids: "series_identifiers request = Inr (Multi ids)"
      and rows: "rows \<noteq> []"
      and present: "\<forall>row \<in> set rows. \<forall>i \<in> set ids. map_of row i \<noteq> None"
  shows "set_unique_index request (frame_of_rows rows) =
     Inr \<lparr>index = map (composite_key ids) rows,
          columns = filter (\<lambda>kv. fst kv \<noteq> ''index'') (columns (frame_of_rows rows))\<rparr>"
proof -
  from multi_identifiers[OF ids] obtain i0 rest where split: "ids = i0 # rest"
    and noindex: "\<forall>i \<in> set rest. i \<noteq> ''index''"
    by auto
  from present split have p0: "\<forall>row \<in> set rows. map_of row i0 \<noteq> None"
    and prest: "\<forall>i \<in> set rest. i \<noteq> ''index'' \<and> (\<forall>row \<in> set rows. map_of row i \<noteq> None)"
    using noindex by auto
  have keys: "map (composite_key ids) rows =
      map (\<lambda>row. CStr (foldl (\<lambda>acc i. acc @ ''_'' @ field row i) (field row i0) rest)) rows"
    by (simp add: split composite_key_foldl)
  have loop: "index_loop
      (frame_setitem (frame_of_rows rows) ''index'' (map (\<lambda>row. CStr (field row i0)) rows)) rest =
     Inr (frame_setitem (frame_of_rows rows) ''index'' (map (composite_key ids) rows))"
    using index_loop_keys[OF rows prest, of "\<lambda>row. field row i0"]
    by (simp only: keys)
  have "filter (\<lambda>kv. fst kv \<noteq> ''index'') (dict_set ''index'' col d) =
        filter (\<lambda>kv. fst kv \<noteq> ''index'') d" for col :: "cell list" and d
    by (induction d) auto
  then show ?thesis
    using ids split loop frame_of_rows_getitem[OF rows p0]
    by (simp add: set_unique_index_def set_index_def frame_getitem_setitem)
       (simp add: frame_setitem_def)
qed

text \<open>The row index goes unchanged through the steps that work on the columns.\<close>

lemma frame_setitem_index: "index (frame_setitem df c col) = index df"
  by (simp add: frame_setitem_def)

lemma frame_drop_index: "index (frame_drop df cs) = index df"
  by (simp add: frame_drop_def)

lemma frame_loc_index: "frame_loc df cs = Inr df' \<Longrightarrow> index df' = index df"
  by (auto simp: frame_loc_def err_bind_Inr_iff)

lemma rescale_index: "rescale df = Inr df' \<Longrightarrow> index df' = index df"
  by (auto simp: rescale_def err_bind_Inr_iff frame_setitem_index frame_drop_index
        split: sum.splits error.splits)

lemma astype_index: "astype df dtypes = Inr df' \<Longrightarrow> index df' = index df"
  by (auto simp: astype_def err_bind_Inr_iff)

lemma squeeze_rename_Series:
  "squeeze_rename df p = Inr (Series p' idx vals) \<Longrightarrow> idx = index df \<and> p' = p"
  by (auto simp: squeeze_rename_def split: list.splits prod.splits if_splits)

lemma DataFrame_rows:
  "those (map row_of data) = Some rows \<Longrightarrow> DataFrame (JList data) = Inr (frame_of_rows rows)"
  by (simp add: DataFrame_def)

text \<open>Columns that are selected from a table, or left in it, are unchanged.\<close>

lemma loc_columns_map_of:
  "loc_columns df cs = Inr cols \<Longrightarrow>
     map_of cols c = (if c \<in> set cs then map_of (columns df) c else None)"
proof (induction cs arbitrary: cols)
  case Nil
  then show ?case by simp
next
  case (Cons a cs)
  then obtain col rest where a: "frame_getitem df a = Inr col"
    and r: "loc_columns df cs = Inr rest" and c: "cols = (a, col) # rest"
    by (auto simp: err_bind_Inr_iff)
  from a have "map_of (columns df) a = Some col"
    by (auto simp: frame_getitem_def split: option.splits)
  with Cons.IH[OF r] c show ?case by auto
qed

lemma frame_loc_getitem:
  "frame_loc df cs = Inr df' \<Longrightarrow> c \<in> set cs \<Longrightarrow> frame_getitem df' c = frame_getitem df c"
  by (auto simp: frame_loc_def err_bind_Inr_iff frame_getitem_def loc_columns_map_of)

lemma frame_loc_columns_head:
  "frame_loc df (c # cs) = Inr df' \<Longrightarrow>
     \<exists>col rest. frame_getitem df c = Inr col \<and> columns df' = (c, col) # rest"
  by (auto simp: frame_loc_def err_bind_Inr_iff)

lemma map_of_filter_fst:
  "P c \<Longrightarrow> map_of (filter (\<lambda>kv. P (fst kv)) kvs) c = map_of kvs c"
  by (induction kvs) auto

lemma frame_drop_getitem:
  "c \<notin> set cs \<Longrightarrow> frame_getitem (frame_drop df cs) c = frame_getitem df c"
  by (simp add: frame_getitem_def frame_drop_def map_of_filter_fst[of "\<lambda>k. k \<notin> set cs"])

lemma frame_getitem_in_columns:
  "frame_getitem df c = Inr col \<Longrightarrow> c \<in> set (map fst (columns df))"
  by (auto simp: frame_getitem_def split: option.splits dest: map_of_SomeD intro: rev_image_eqI)

lemma frame_of_rows_column:
  "frame_getitem (frame_of_rows rows) c = Inr col \<Longrightarrow>
     col = map (\<lambda>r. case map_of r c of Some s \<Rightarrow> CStr s | None \<Rightarrow> NaN) rows"
  by (auto simp: frame_getitem_def frame_of_rows_def map_of_key_map split: if_splits option.splits)

lemma indexed_table_getitem:
  "c \<noteq> ''index'' \<Longrightarrow>
   frame_getitem \<lparr>index = idx, columns = filter (\<lambda>kv. fst kv \<noteq> ''index'') (columns df)\<rparr> c =
     frame_getitem df c"
  by (simp add: frame_getitem_def map_of_filter_fst[of "\<lambda>k. k \<noteq> ''index''"])

text \<open>For a dataset with several identifier fields the period field is \<^verbatim>\<open>Year\<close>, and the
  value columns are the period, \<^verbatim>\<open>DataValue\<close> and at most \<^verbatim>\<open>UNIT_MULT\<close>.\<close>

lemma multi_period_identifier:
  assumes "series_identifiers request = Inr (Multi ids)"
  shows "period_identifier request = Inr ''Year''"
  using assms
  by (cases "dataset_name request")
     (auto simp: series_identifiers_def period_identifier_def split: if_splits)

lemma multi_data_columns:
  assumes "series_identifiers request = Inr (Multi ids)"
  shows "\<exists>rest. data_columns request dimensions = Inr (''Year'' # ''DataValue'' # rest) \<and>
           set rest \<subseteq> {''UNIT_MULT''}"
  by (auto simp: data_columns_def multi_period_identifier[OF assms])

text \<open>
  The period column is the first column of the value frame and stays so: the payload
  is the vector over the row index when \<^verbatim>\<open>nunique\<close> of the period column is one, and
  otherwise the table that the reshaper makes of the periods and of the former row index.
\<close>

lemma rescale_head:
  assumes "rescale df = Inr df'" and "columns df = (c, col) # rest"
      and "c \<noteq> ''DataValue''" and "c \<noteq> ''UNIT_MULT''" and "c \<noteq> ''data''"
  shows "\<exists>rest'. columns df' = (c, col) # rest'"
  using assms
  by (auto simp: rescale_def err_bind_Inr_iff frame_setitem_def frame_drop_def
        split: sum.splits error.splits)

lemma astype_head:
  assumes "astype df dtypes = Inr df'" and "columns df = (c, col) # rest"
      and "map_of dtypes c = Some Str"
  shows "\<exists>rest'. columns df' = (c, map (\<lambda>x. CStr (astype_str x)) col) # rest'"
  using assms
  by (auto simp: astype_def err_bind_Inr_iff astype_column_def)

lemma nunique_strings:
  "nunique (map (\<lambda>x. CStr (f x)) xs) = length (uniq (map (\<lambda>x. CStr (f x)) xs))"
proof -
  have "filter (\<lambda>c. c \<noteq> NaN) (map (\<lambda>x. CStr (f x)) xs) = map (\<lambda>x. CStr (f x)) xs"
    by (induction xs) auto
  then show ?thesis by (simp add: nunique_def)
qed

lemma construct_data_shape:
  assumes cd: "construct_data request df = Inr payload"
      and pid: "period_identifier request = Inr p_id"
      and cols: "columns df = (p_id, col) # rest"
      and ne: "p_id \<noteq> ''DataValue''" "p_id \<noteq> ''UNIT_MULT''" "p_id \<noteq> ''data''" "p_id \<noteq> ''index''"
  shows "payload = Series p idx vals \<Longrightarrow>
           idx = index df \<and> nunique (map (\<lambda>x. CStr (astype_str x)) col) = 1 \<and>
           p = CStr (astype_str (hd col))"
    and "payload = Wide w \<Longrightarrow>
           col_labels w = uniq (index df) \<and>
           row_labels w = sort_key period_key (uniq (map (\<lambda>x. CStr (astype_str x)) col)) \<and>
           nunique (map (\<lambda>x. CStr (astype_str x)) col) \<noteq> 1"
proof -
  let ?periods = "map (\<lambda>x. CStr (astype_str x)) col"
  from cd pid obtain dv dt df1 df2 periods where
    r: "rescale (frame_setitem df ''DataValue'' dv) = Inr df1"
    and a: "astype df1 (zip (map fst (columns df1)) [Str, Str, dt]) = Inr df2"
    and g: "frame_getitem df2 p_id = Inr periods"
    and s: "(if nunique periods = 1 then
         (case periods of
            p # _ \<Rightarrow> squeeze_rename (frame_drop df2 [p_id]) p
          | [] \<Rightarrow> Inl (IndexError ''single positional indexer is out-of-bounds''))
       else
         err_bind (reset_index df2) (\<lambda>df.
         err_bind (DataFormatter_format p_id df) (\<lambda>w. Inr (Wide w)))) = Inr payload"
    by (auto simp: construct_data_def err_bind_Inr_iff split: prod.splits)
  have "columns (frame_setitem df ''DataValue'' dv) = (p_id, col) # dict_set ''DataValue'' dv rest"
    using cols ne by (simp add: frame_setitem_def)
  from rescale_head[OF r this ne(1,2,3)] obtain rest1 where c1: "columns df1 = (p_id, col) # rest1"
    by blast
  have "map_of (zip (map fst (columns df1)) [Str, Str, dt]) p_id = Some Str"
    by (simp add: c1)
  from astype_head[OF a c1 this] obtain rest2 where c2: "columns df2 = (p_id, ?periods) # rest2"
    by blast
  from g c2 have periods: "periods = ?periods"
    by (simp add: frame_getitem_def)
  have idx2: "index df2 = index df"
    using rescale_index[OF r] astype_index[OF a] by (simp add: frame_setitem_index)
  show "idx = index df \<and> nunique ?periods = 1 \<and> p = CStr (astype_str (hd col))"
    if "payload = Series p idx vals"
  proof -
    from s that have n: "nunique periods = 1"
      by (auto simp: err_bind_Inr_iff split: if_splits)
    with s that obtain p0 ps where ps: "periods = p0 # ps"
      and sq: "squeeze_rename (frame_drop df2 [p_id]) p0 = Inr (Series p idx vals)"
      by (auto split: list.splits)
    from squeeze_rename_Series[OF sq] have "idx = index df2" "p = p0"
      by (simp_all add: frame_drop_index)
    moreover from ps periods have "p0 = CStr (astype_str (hd col))"
      by (cases col) auto
    ultimately show ?thesis using n periods idx2 by simp
  qed
  show "col_labels w = uniq (index df) \<and> row_labels w = sort_key period_key (uniq ?periods) \<and>
        nunique ?periods \<noteq> 1"
    if "payload = Wide w"
  proof -
    from s that have n: "nunique periods \<noteq> 1"
      by (auto simp: squeeze_rename_def split: if_splits list.splits prod.splits)
    with s that obtain df3 where ri: "reset_index df2 = Inr df3"
      and fmt: "DataFormatter_format p_id df3 = Inr w"
      by (auto simp: err_bind_Inr_iff)
    from ri have c3: "columns df3 = (''index'', index df2) # columns df2"
      by (auto simp: reset_index_def split: if_splits)
    then have k: "frame_getitem df3 ''index'' = Inr (index df)"
      by (simp add: frame_getitem_def idx2)
    from c3 c2 ne(4) have pq: "frame_getitem df3 p_id = Inr ?periods"
      by (simp add: frame_getitem_def)
    from fmt k pq have "col_labels w = uniq (index df)"
      and "row_labels w = sort_key period_key (uniq ?periods)"
      by (auto simp: DataFormatter_format_def err_bind_Inr_iff Let_def)
    with n periods show ?thesis by simp
  qed
qed

text \<open>
  \<^verbatim>\<open>drop_duplicates\<close> selects the same rows from the index and from every column. A key
  is a function of the identifier columns, which are part of every metadata row, so
  the first occurrences hold every key.
\<close>

lemma drop_duplicates_exact:
  "drop_duplicates df = Inr df' \<Longrightarrow>
     index df' = select (first_occurrence [] (frame_rows df)) (index df) \<and>
     columns df' =
       map (\<lambda>kv. (fst kv, select (first_occurrence [] (frame_rows df)) (snd kv))) (columns df)"
  by (auto simp: drop_duplicates_def Let_def split: if_splits)

lemma map_of_map_snd:
  "map_of (map (\<lambda>kv. (fst kv, f (snd kv))) kvs) c = map_option f (map_of kvs c)"
  by (induction kvs) auto

lemma drop_duplicates_getitem:
  assumes "drop_duplicates df = Inr df'" and "frame_getitem df c = Inr col"
  shows "frame_getitem df' c = Inr (select (first_occurrence [] (frame_rows df)) col)"
  using assms drop_duplicates_exact[OF assms(1)]
  by (auto simp: frame_getitem_def map_of_map_snd split: option.splits)

lemma construct_metadata_exact:
  assumes "construct_metadata notes meta = Inr md"
  shows "\<exists>m. drop_duplicates m = Inr md \<and> index m = index meta \<and>
           (\<forall>c. c \<noteq> ''Notes'' \<and> c \<noteq> ''NoteRef'' \<longrightarrow> frame_getitem m c = frame_getitem meta c)"
proof -
  from assms obtain md1 where
    m1: "(if notes \<noteq> [] then
          (if ''NoteRef'' \<notin> set (map fst (columns meta)) then Inr meta
           else
             err_bind (frame_getattr meta ''NoteRef'') (\<lambda>refs.
             err_bind (map_notes notes refs) (\<lambda>texts.
               Inr (frame_drop (frame_setitem meta ''Notes'' texts) [''NoteRef'']))))
        else Inr meta) = Inr md1"
    and d: "drop_duplicates md1 = Inr md"
    unfolding construct_metadata_def err_bind_Inr_iff by blast
  from m1 have "index md1 = index meta"
    by (auto simp: err_bind_Inr_iff frame_setitem_index frame_drop_index split: if_splits)
  moreover from m1 have "frame_getitem md1 c = frame_getitem meta c"
    if "c \<noteq> ''Notes'' \<and> c \<noteq> ''NoteRef''" for c
    using that
    by (auto simp: err_bind_Inr_iff frame_drop_getitem frame_getitem_setitem split: if_splits)
  ultimately show ?thesis using d by blast
qed

lemma select_Cons:
  "select (b # bs) (x # xs) = (if b then x # select bs xs else select bs xs)"
  by (simp add: select_def)

lemma select_map: "select keep (map f xs) = map f (select keep xs)"
proof (induction xs arbitrary: keep)
  case Nil
  then show ?case by (simp add: select_def)
next
  case (Cons x xs)
  then show ?case by (cases keep) (simp_all add: select_Cons, simp add: select_def)
qed

lemma first_occurrence_keeps_images:
  "set (select (first_occurrence seen rs) (map h rs)) \<union> h ` set seen = h ` set rs \<union> h ` set seen"
proof (induction rs arbitrary: seen)
  case Nil
  then show ?case by (simp add: select_def)
next
  case (Cons r rs)
  from Cons.IH[of "r # seen"] show ?case
    by (auto simp: select_Cons)
qed

lemma first_occurrence_keeps_keys:
  "set (select (first_occurrence [] rs) (map h rs)) = set (map h rs)"
  using first_occurrence_keeps_images[of "[]" rs h] by simp

lemma keys_function_of_rows:
  assumes len: "length (index m) = length rows"
      and cols: "\<forall>i \<in> set ids. frame_getitem m i = Inr (map (\<lambda>row. CStr (field row i)) rows)"
  shows "\<exists>h. map (composite_key ids) rows = map h (frame_rows m)"
proof -
  have "\<forall>i \<in> set ids. \<exists>n. n < length (columns m) \<and>
          snd (columns m ! n) = map (\<lambda>row. CStr (field row i)) rows"
  proof
    fix i assume "i \<in> set ids"
    with cols have "map_of (columns m) i = Some (map (\<lambda>row. CStr (field row i)) rows)"
      by (auto simp: frame_getitem_def split: option.splits)
    then have "(i, map (\<lambda>row. CStr (field row i)) rows) \<in> set (columns m)"
      by (rule map_of_SomeD)
    then obtain n where "n < length (columns m)"
      and "columns m ! n = (i, map (\<lambda>row. CStr (field row i)) rows)"
      by (auto simp: in_set_conv_nth)
    then show "\<exists>n. n < length (columns m) \<and>
          snd (columns m ! n) = map (\<lambda>row. CStr (field row i)) rows"
      by (intro exI[of _ n]) simp
  qed
  then obtain pos where pos: "\<forall>i \<in> set ids. pos i < length (columns m) \<and>
          snd (columns m ! pos i) = map (\<lambda>row. CStr (field row i)) rows"
    by (auto dest: bchoice)
  define h where
    "h = (\<lambda>r. CStr (join ''_'' (map (\<lambda>i. case r ! pos i of CStr s \<Rightarrow> s | _ \<Rightarrow> []) ids)))"
  have "map h (frame_rows m) = map (composite_key ids) rows"
  proof (rule nth_equalityI)
    show "length (map h (frame_rows m)) = length (map (composite_key ids) rows)"
      by (simp add: frame_rows_def len)
  next
    fix j assume "j < length (map h (frame_rows m))"
    then have j: "j < length rows" by (simp add: frame_rows_def len)
    have fr: "frame_rows m ! j = map (\<lambda>kv. snd kv ! j) (columns m)"
      using j by (simp add: frame_rows_def len)
    have eq: "map (\<lambda>i. case map (\<lambda>kv. snd kv ! j) (columns m) ! pos i of CStr s \<Rightarrow> s | _ \<Rightarrow> []) ids
        = map (field (rows ! j)) ids"
    proof (rule map_cong[OF refl])
      fix i assume "i \<in> set ids"
      with pos have "pos i < length (columns m)"
        and "snd (columns m ! pos i) = map (\<lambda>row. CStr (field row i)) rows" by auto
      with j show "(case map (\<lambda>kv. snd kv ! j) (columns m) ! pos i of CStr s \<Rightarrow> s | _ \<Rightarrow> [])
          = field (rows ! j) i"
        by simp
    qed
    have "h (frame_rows m ! j) = composite_key ids (rows ! j)"
      unfolding h_def composite_key_def fr by (simp only: eq)
    moreover have "length (frame_rows m) = length rows"
      by (simp add: frame_rows_def len)
    ultimately show "map h (frame_rows m) ! j = map (composite_key ids) rows ! j"
      using j by simp
  qed
  then show ?thesis by metis
qed

text \<open>
  C6. The claim: the composite key is the row index shared by the numeric payload and
  the metadata table. It fails for the payload when the rows span several periods: for
  two \<^verbatim>\<open>mne\<close> series observed in 2020 and 2021 the four rows have the keys \<^verbatim>\<open>1_10_A\<close>,
  \<^verbatim>\<open>2_10_B\<close>, \<^verbatim>\<open>1_10_A\<close>, \<^verbatim>\<open>2_10_B\<close>; \<^verbatim>\<open>_construct_data\<close> turns the key into an ordinary
  column (\<^verbatim>\<open>reset_index\<close>) and hands the table to the reshaper, and the payload has the
  rows \<^verbatim>\<open>2020\<close> and \<^verbatim>\<open>2021\<close> and the keys as its columns, while the metadata table has the
  rows \<^verbatim>\<open>1_10_A\<close> and \<^verbatim>\<open>2_10_B\<close>.
\<close>

theorem matrix_payload_rows_are_periods:
  "map (composite_key [''SeriesID'', ''RowCode'', ''ColumnCode''])
     [[(''SeriesID'', ''1''), (''RowCode'', ''10''), (''ColumnCode'', ''A''),
       (''Year'', ''2020''), (''DataValue'', ''5'')],
      [(''SeriesID'', ''2''), (''RowCode'', ''10''), (''ColumnCode'', ''B''),
       (''Year'', ''2020''), (''DataValue'', ''6'')],
      [(''SeriesID'', ''1''), (''RowCode'', ''10''), (''ColumnCode'', ''A''),
       (''Year'', ''2021''), (''DataValue'', ''7'')],
      [(''SeriesID'', ''2''), (''RowCode'', ''10''), (''ColumnCode'', ''B''),
       (''Year'', ''2021''), (''DataValue'', ''8'')]] =
     [CStr ''1_10_A'', CStr ''2_10_B'', CStr ''1_10_A'', CStr ''2_10_B'']
   \<and> construct_data_and_metadata
        [(JStr ''METHOD'', JStr ''GETDATA''), (JStr ''DATASETNAME'', JStr ''MNE'')] [] []
        (JList [mne_observation ''1'' ''10'' ''A'' ''2020'' ''5'',
                mne_observation ''2'' ''10'' ''B'' ''2020'' ''6'',
                mne_observation ''1'' ''10'' ''A'' ''2021'' ''7'',
                mne_observation ''2'' ''10'' ''B'' ''2021'' ''8'']) =
       Inr (Wide \<lparr>row_labels = [CStr ''2020'', CStr ''2021''],
                  col_labels = [CStr ''1_10_A'', CStr ''2_10_B''],
                  cells = [[CStr ''5'', CStr ''6''], [CStr ''7'', CStr ''8'']]\<rparr>,
            \<lparr>index = [CStr ''1_10_A'', CStr ''2_10_B''],
             columns = [(''SeriesID'', [CStr ''1'', CStr ''2'']),
                        (''RowCode'', [CStr ''10'', CStr ''10'']),
                        (''ColumnCode'', [CStr ''A'', CStr ''B''])]\<rparr>)
   \<and> data_of (from_response example_url
        (data_document ''MNE'' []
           [mne_observation ''1'' ''10'' ''A'' ''2020'' ''5'',
            mne_observation ''2'' ''10'' ''B'' ''2020'' ''6'',
            mne_observation ''1'' ''10'' ''A'' ''2021'' ''7'',
            mne_observation ''2'' ''10'' ''B'' ''2021'' ''8''])) =
       Inr (Wide \<lparr>row_labels = [CStr ''2020'', CStr ''2021''],
                  col_labels = [CStr ''1_10_A'', CStr ''2_10_B''],
                  cells = [[CStr ''5'', CStr ''6''], [CStr ''7'', CStr ''8'']]\<rparr>)
   \<and> CStr ''1_10_A'' \<notin> set [CStr ''2020'', CStr ''2021'']"
  by code_simp

text \<open>
  C6, as amended. For a dataset whose series identifier has several fields (\<^verbatim>\<open>mne\<close>,
  \<^verbatim>\<open>inputoutput\<close>) and observation rows that all have these fields, the row index that
  \<^verbatim>\<open>_set_unique_index\<close> gives the table is, row by row, the values of the identifier fields
  in declared order joined by \<^verbatim>\<open>_\<close>. Whenever the payload and the metadata are built
  from this table:

  \<^item> a vector payload arises when all rows have one period; its index is exactly this
    list of keys and its name is the period;
  \<^item> a matrix payload arises when they do not; its columns are the distinct keys in the
    order of their first occurrence and its rows are the distinct periods, sorted;
  \<^item> the metadata table is the table of the metadata columns, indexed by the keys,
    without the rows that repeat an earlier one: its index and its identifier columns
    are selected by the same mask, so every metadata row is indexed by the composite
    key of its own identifier fields, and every key indexes a metadata row.
\<close>

theorem composite_key_labels_tables:
  assumes ids: "series_identifiers request = Inr (Multi ids)"
      and data: "those (map row_of data) = Some rows"
      and rows: "rows \<noteq> []"
      and present: "\<forall>row \<in> set rows. \<forall>i \<in> set ids. map_of row i \<noteq> None"
  shows "(\<exists>df. err_bind (DataFrame (JList data)) (set_unique_index request) = Inr df \<and>
            index df = map (composite_key ids) rows)
       \<and> (\<forall>dimensions footnotes payload md.
            construct_data_and_metadata request dimensions footnotes (JList data) =
              Inr (payload, md) \<longrightarrow>
            (\<forall>p idx vals. payload = Series p idx vals \<longrightarrow>
               idx = map (composite_key ids) rows \<and>
               nunique (map (period_label ''Year'') rows) = 1 \<and>
               p = period_label ''Year'' (hd rows))
            \<and> (\<forall>w. payload = Wide w \<longrightarrow>
               col_labels w = uniq (map (composite_key ids) rows) \<and>
               row_labels w = sort_key period_key (uniq (map (period_label ''Year'') rows)) \<and>
               nunique (map (period_label ''Year'') rows) \<noteq> 1)
            \<and> (\<exists>m. drop_duplicates m = Inr md \<and>
                   index m = map (composite_key ids) rows \<and>
                   (\<forall>i \<in> set ids.
                      frame_getitem m i = Inr (map (\<lambda>row. CStr (field row i)) rows)) \<and>
                   index md = select (first_occurrence [] (frame_rows m)) (index m) \<and>
                   index md =
                     map (composite_key ids) (select (first_occurrence [] (frame_rows m)) rows) \<and>
                   (\<forall>i \<in> set ids.
                      frame_getitem md i =
                        Inr (map (\<lambda>row. CStr (field row i))
                               (select (first_occurrence [] (frame_rows m)) rows))))
            \<and> set (index md) = set (map (composite_key ids) rows))"
proof -
  let ?keys = "map (composite_key ids) rows"
  let ?T = "\<lparr>index = ?keys,
            columns = filter (\<lambda>kv. fst kv \<noteq> ''index'') (columns (frame_of_rows rows))\<rparr>"
  note sui = set_unique_index_multi[OF ids rows present]
  have first: "\<exists>df. err_bind (DataFrame (JList data)) (set_unique_index request) = Inr df \<and>
            index df = ?keys"
    by (simp add: DataFrame_rows[OF data] sui)
  have second:
    "(\<forall>p idx vals. payload = Series p idx vals \<longrightarrow>
               idx = ?keys \<and>
               nunique (map (period_label ''Year'') rows) = 1 \<and>
               p = period_label ''Year'' (hd rows))
            \<and> (\<forall>w. payload = Wide w \<longrightarrow>
               col_labels w = uniq ?keys \<and>
               row_labels w = sort_key period_key (uniq (map (period_label ''Year'') rows)) \<and>
               nunique (map (period_label ''Year'') rows) \<noteq> 1)
            \<and> (\<exists>m. drop_duplicates m = Inr md \<and>
                   index m = ?keys \<and>
                   (\<forall>i \<in> set ids.
                      frame_getitem m i = Inr (map (\<lambda>row. CStr (field row i)) rows)) \<and>
                   index md = select (first_occurrence [] (frame_rows m)) (index m) \<and>
                   index md =
                     map (composite_key ids) (select (first_occurrence [] (frame_rows m)) rows) \<and>
                   (\<forall>i \<in> set ids.
                      frame_getitem md i =
                        Inr (map (\<lambda>row. CStr (field row i))
                               (select (first_occurrence [] (frame_rows m)) rows))))
            \<and> set (index md) = set ?keys"
    if c: "construct_data_and_metadata request dimensions footnotes (JList data) =
              Inr (payload, md)"
    for dimensions footnotes payload md
  proof -
    from multi_data_columns[OF ids, of dimensions] obtain rest where
      dc: "data_columns request dimensions = Inr (''Year'' # ''DataValue'' # rest)"
      and rest: "set rest \<subseteq> {''UNIT_MULT''}"
      by blast
    from c obtain value_frame meta where
      v: "frame_loc ?T (''Year'' # ''DataValue'' # rest) = Inr value_frame"
      and cd: "construct_data request value_frame = Inr payload"
      and m: "frame_loc ?T
                (filter (\<lambda>c. c \<notin> set (''Year'' # ''DataValue'' # rest)) (map fst (columns ?T))) =
              Inr meta"
      and cm: "construct_metadata footnotes meta = Inr md"
      by (auto simp: construct_data_and_metadata_def DataFrame_rows[OF data] sui dc
            err_bind_Inr_iff Let_def)
    from frame_loc_columns_head[OF v] obtain col rest' where
      gy: "frame_getitem ?T ''Year'' = Inr col"
      and vc: "columns value_frame = (''Year'', col) # rest'"
      by blast
    from gy have "frame_getitem (frame_of_rows rows) ''Year'' = Inr col"
      by (simp add: indexed_table_getitem)
    from frame_of_rows_column[OF this]
    have col: "col = map (\<lambda>r. case map_of r ''Year'' of Some s \<Rightarrow> CStr s | None \<Rightarrow> NaN) rows" .
    have periods: "map (\<lambda>x. CStr (astype_str x)) col = map (period_label ''Year'') rows"
      by (auto simp: col astype_str_def period_label_def split: option.splits)
    have first_period: "CStr (astype_str (hd col)) = period_label ''Year'' (hd rows)"
      using rows by (cases rows) (auto simp: col astype_str_def period_label_def split: option.splits)
    have vi: "index value_frame = ?keys"
      using frame_loc_index[OF v] by simp
    have series: "idx = ?keys \<and> nunique (map (period_label ''Year'') rows) = 1 \<and>
               p = period_label ''Year'' (hd rows)"
      if "payload = Series p idx vals" for p idx vals
      using construct_data_shape(1)[OF cd multi_period_identifier[OF ids] vc _ _ _ _ that]
      by (simp add: periods first_period vi)
    have matrix: "col_labels w = uniq ?keys \<and>
               row_labels w = sort_key period_key (uniq (map (period_label ''Year'') rows)) \<and>
               nunique (map (period_label ''Year'') rows) \<noteq> 1"
      if "payload = Wide w" for w
      using construct_data_shape(2)[OF cd multi_period_identifier[OF ids] vc _ _ _ _ that]
      by (simp add: periods vi)
    from construct_metadata_exact[OF cm] obtain m0 where
      dd: "drop_duplicates m0 = Inr md"
      and mi: "index m0 = index meta"
      and mg: "\<forall>c. c \<noteq> ''Notes'' \<and> c \<noteq> ''NoteRef'' \<longrightarrow> frame_getitem m0 c = frame_getitem meta c"
      by blast
    have meta_i: "index meta = ?keys"
      using frame_loc_index[OF m] by simp
    have idcols: "frame_getitem m0 i = Inr (map (\<lambda>row. CStr (field row i)) rows)"
      if i: "i \<in> set ids" for i
    proof -
      from multi_identifiers[OF ids] i rest
      have ne: "i \<noteq> ''index''" "i \<noteq> ''Notes'' \<and> i \<noteq> ''NoteRef''"
        "i \<notin> set (''Year'' # ''DataValue'' # rest)"
        by auto
      from present i have "\<forall>row \<in> set rows. map_of row i \<noteq> None" by blast
      from frame_of_rows_getitem[OF rows this] ne(1)
      have g: "frame_getitem ?T i = Inr (map (\<lambda>row. CStr (field row i)) rows)"
        by (simp add: indexed_table_getitem)
      from frame_getitem_in_columns[OF g] ne(3)
      have "i \<in> set (filter (\<lambda>c. c \<notin> set (''Year'' # ''DataValue'' # rest))
                      (map fst (columns ?T)))"
        by simp
      from frame_loc_getitem[OF m this] g mg ne(2) show ?thesis by simp
    qed
    let ?keep = "first_occurrence [] (frame_rows m0)"
    from drop_duplicates_exact[OF dd] have mdi0: "index md = select ?keep (index m0)"
      by simp
    then have mdi: "index md = select ?keep ?keys"
      by (simp add: mi meta_i)
    then have mdi': "index md = map (composite_key ids) (select ?keep rows)"
      by (simp add: select_map)
    have mdcols: "frame_getitem md i = Inr (map (\<lambda>row. CStr (field row i)) (select ?keep rows))"
      if "i \<in> set ids" for i
      using drop_duplicates_getitem[OF dd idcols[OF that]] by (simp add: select_map)
    from keys_function_of_rows[of m0 rows ids] idcols mi meta_i
    obtain h where "?keys = map h (frame_rows m0)" by auto
    with first_occurrence_keeps_keys[of "frame_rows m0" h] mdi
    have all_keys: "set (index md) = set ?keys" by simp
    have "\<exists>m. drop_duplicates m = Inr md \<and>
                   index m = ?keys \<and>
                   (\<forall>i \<in> set ids.
                      frame_getitem m i = Inr (map (\<lambda>row. CStr (field row i)) rows)) \<and>
                   index md = select (first_occurrence [] (frame_rows m)) (index m) \<and>
                   index md =
                     map (composite_key ids) (select (first_occurrence [] (frame_rows m)) rows) \<and>
                   (\<forall>i \<in> set ids.
                      frame_getitem md i =
                        Inr (map (\<lambda>row. CStr (field row i))
                               (select (first_occurrence [] (frame_rows m)) rows)))"
      using dd mi meta_i idcols mdi0 mdi' mdcols by (intro exI[of _ m0]) simp
    with series matrix all_keys show ?thesis by blast
  qed
  from first second show ?thesis by blast
qed

theorem composite_key_labels_tables_witness:
  "series_identifiers [(JStr ''METHOD'', JStr ''GETDATA''), (JStr ''DATASETNAME'', JStr ''MNE'')] =
     Inr (Multi [''SeriesID'', ''RowCode'', ''ColumnCode''])
   \<and> composite_key [''SeriesID'', ''RowCode'', ''ColumnCode'']
        [(''SeriesID'', ''1''), (''RowCode'', ''10''), (''ColumnCode'', ''A''),
         (''Year'', ''2020''), (''DataValue'', ''5'')] = CStr ''1_10_A''
   \<and> (\<exists>df. err_bind
          (DataFrame (JList [mne_observation ''1'' ''10'' ''A'' ''2020'' ''5'',
                             mne_observation ''2'' ''10'' ''B'' ''2020'' ''6'']))
          (set_unique_index
             [(JStr ''METHOD'', JStr ''GETDATA''), (JStr ''DATASETNAME'', JStr ''MNE'')]) = Inr df
        \<and> index df = [CStr ''1_10_A'', CStr ''2_10_B''])
   \<and> (\<exists>p idx vals md. construct_data_and_metadata
          [(JStr ''METHOD'', JStr ''GETDATA''), (JStr ''DATASETNAME'', JStr ''MNE'')] [] []
          (JList [mne_observation ''1'' ''10'' ''A'' ''2020'' ''5'',
                  mne_observation ''2'' ''10'' ''B'' ''2020'' ''6'']) =
          Inr (Series p idx vals, md)
        \<and> p = CStr ''2020''
        \<and> idx = [CStr ''1_10_A'', CStr ''2_10_B'']
        \<and> index md = [CStr ''1_10_A'', CStr ''2_10_B'']
        \<and> set (index md) = set idx)
   \<and> (\<exists>w md. construct_data_and_metadata
          [(JStr ''METHOD'', JStr ''GETDATA''), (JStr ''DATASETNAME'', JStr ''MNE'')] [] []
          (JList [mne_observation ''1'' ''10'' ''A'' ''2020'' ''5'',
                  mne_observation ''2'' ''10'' ''B'' ''2020'' ''6'',
                  mne_observation ''1'' ''10'' ''A'' ''2021'' ''7'',
                  mne_observation ''2'' ''10'' ''B'' ''2021'' ''8'']) =
          Inr (Wide w, md)
        \<and> col_labels w = [CStr ''1_10_A'', CStr ''2_10_B'']
        \<and> row_labels w = [CStr ''2020'', CStr ''2021'']
        \<and> index md = [CStr ''1_10_A'', CStr ''2_10_B'']
        \<and> set (index md) = set (col_labels w))"
proof -
  let ?request = "[(JStr ''METHOD'', JStr ''GETDATA''), (JStr ''DATASETNAME'', JStr ''MNE'')]"
  let ?ids = "[''SeriesID'', ''RowCode'', ''ColumnCode'']"
  let ?data = "[mne_observation ''1'' ''10'' ''A'' ''2020'' ''5'',
                mne_observation ''2'' ''10'' ''B'' ''2020'' ''6'']"
  let ?rows = "[[(''SeriesID'', ''1''), (''RowCode'', ''10''), (''ColumnCode'', ''A''),
                 (''Year'', ''2020''), (''DataValue'', ''5'')],
                [(''SeriesID'', ''2''), (''RowCode'', ''10''), (''ColumnCode'', ''B''),
                 (''Year'', ''2020''), (''DataValue'', ''6'')]]"
  let ?data2 = "[mne_observation ''1'' ''10'' ''A'' ''2020'' ''5'',
                 mne_observation ''2'' ''10'' ''B'' ''2020'' ''6'',
                 mne_observation ''1'' ''10'' ''A'' ''2021'' ''7'',
                 mne_observation ''2'' ''10'' ''B'' ''2021'' ''8'']"
  let ?rows2 = "[[(''SeriesID'', ''1''), (''RowCode'', ''10''), (''ColumnCode'', ''A''),
                  (''Year'', ''2020''), (''DataValue'', ''5'')],
                 [(''SeriesID'', ''2''), (''RowCode'', ''10''), (''ColumnCode'', ''B''),
                  (''Year'', ''2020''), (''DataValue'', ''6'')],
                 [(''SeriesID'', ''1''), (''RowCode'', ''10''), (''ColumnCode'', ''A''),
                  (''Year'', ''2021''), (''DataValue'', ''7'')],
                 [(''SeriesID'', ''2''), (''RowCode'', ''10''), (''ColumnCode'', ''B''),
                  (''Year'', ''2021''), (''DataValue'', ''8'')]]"
  let ?md = "\<lparr>index = [CStr ''1_10_A'', CStr ''2_10_B''],
             columns = [(''SeriesID'', [CStr ''1'', CStr ''2'']),
                        (''RowCode'', [CStr ''10'', CStr ''10'']),
                        (''ColumnCode'', [CStr ''A'', CStr ''B''])]\<rparr>"
  let ?w = "\<lparr>row_labels = [CStr ''2020'', CStr ''2021''],
            col_labels = [CStr ''1_10_A'', CStr ''2_10_B''],
            cells = [[CStr ''5'', CStr ''6''], [CStr ''7'', CStr ''8'']]\<rparr>"
  have h1: "series_identifiers ?request = Inr (Multi ?ids)"
    by code_simp
  have h2: "those (map row_of ?data) = Some ?rows"
    by code_simp
  have h3: "?rows \<noteq> []"
    by simp
  have h4: "\<forall>row \<in> set ?rows. \<forall>i \<in> set ?ids. map_of row i \<noteq> None"
    by simp
  have g2: "those (map row_of ?data2) = Some ?rows2"
    by code_simp
  have g3: "?rows2 \<noteq> []"
    by simp
  have g4: "\<forall>row \<in> set ?rows2. \<forall>i \<in> set ?ids. map_of row i \<noteq> None"
    by simp
  have keys: "map (composite_key ?ids) ?rows = [CStr ''1_10_A'', CStr ''2_10_B'']"
    by code_simp
  have keys2: "uniq (map (composite_key ?ids) ?rows2) = [CStr ''1_10_A'', CStr ''2_10_B'']"
    by code_simp
  have periods2: "sort_key period_key (uniq (map (period_label ''Year'') ?rows2)) =
      [CStr ''2020'', CStr ''2021'']"
    by code_simp
  have period: "period_label ''Year'' (hd ?rows) = CStr ''2020''"
    by code_simp
  have key: "composite_key ?ids
        [(''SeriesID'', ''1''), (''RowCode'', ''10''), (''ColumnCode'', ''A''),
         (''Year'', ''2020''), (''DataValue'', ''5'')] = CStr ''1_10_A''"
    by code_simp
  have run: "construct_data_and_metadata ?request [] [] (JList ?data) =
      Inr (Series (CStr ''2020'') [CStr ''1_10_A'', CStr ''2_10_B''] [CStr ''5'', CStr ''6''], ?md)"
    by code_simp
  have run2: "construct_data_and_metadata ?request [] [] (JList ?data2) = Inr (Wide ?w, ?md)"
    by code_simp
  note t = composite_key_labels_tables[OF h1 h2 h3 h4]
  note t2 = composite_key_labels_tables[OF h1 g2 g3 g4]
  from t have "\<exists>df. err_bind (DataFrame (JList ?data)) (set_unique_index ?request) = Inr df \<and>
            index df = map (composite_key ?ids) ?rows"
    by (rule conjunct1)
  then have a: "\<exists>df. err_bind (DataFrame (JList ?data)) (set_unique_index ?request) = Inr df \<and>
            index df = [CStr ''1_10_A'', CStr ''2_10_B'']"
    by (simp only: keys)
  from t[THEN conjunct2, THEN spec, THEN spec, THEN spec, THEN spec, THEN mp, OF run]
  have "[CStr ''1_10_A'', CStr ''2_10_B''] = map (composite_key ?ids) ?rows
      \<and> CStr ''2020'' = period_label ''Year'' (hd ?rows)
      \<and> set (index ?md) = set (map (composite_key ?ids) ?rows)"
    by blast
  then have b: "\<exists>p idx vals md. construct_data_and_metadata ?request [] [] (JList ?data) =
          Inr (Series p idx vals, md)
        \<and> p = CStr ''2020''
        \<and> idx = [CStr ''1_10_A'', CStr ''2_10_B'']
        \<and> index md = [CStr ''1_10_A'', CStr ''2_10_B'']
        \<and> set (index md) = set idx"
    using run by (simp only: keys period) simp
  from t2[THEN conjunct2, THEN spec, THEN spec, THEN spec, THEN spec, THEN mp, OF run2]
  have "col_labels ?w = uniq (map (composite_key ?ids) ?rows2)
      \<and> row_labels ?w = sort_key period_key (uniq (map (period_label ''Year'') ?rows2))
      \<and> set (index ?md) = set (map (composite_key ?ids) ?rows2)"
    by blast
  then have c: "\<exists>w md. construct_data_and_metadata ?request [] [] (JList ?data2) =
          Inr (Wide w, md)
        \<and> col_labels w = [CStr ''1_10_A'', CStr ''2_10_B'']
        \<and> row_labels w = [CStr ''2020'', CStr ''2021'']
        \<and> index md = [CStr ''1_10_A'', CStr ''2_10_B'']
        \<and> set (index md) = set (col_labels w)"
    using run2 by (simp only: keys2 periods2) simp
  from h1 key a b c show ?thesis by blast
qed

section \<open>Results on the numeric payload\<close>

text \<open>
  C2. The claim: the raw-value column \<^verbatim>\<open>["12.5", "(D)"]\<close> becomes the mixed column
  \<^verbatim>\<open>[12.5, "(D)"]\<close>. On the code: the column does not parse as a whole, and the mask of
  the entries to convert is \<^verbatim>\<open>str.isnumeric\<close>, which holds for strings of digits only
  and not for \<^verbatim>\<open>"12.5"\<close>; no entry is converted and the payload holds the two strings.
\<close>

theorem decimal_beside_sentinel_stays_string:
  "isnumeric ''12.5'' = False
   \<and> coerce_DataValue [CStr ''12.5'', CStr ''(D)''] = Inr ([CStr ''12.5'', CStr ''(D)''], Object)
   \<and> data_of (from_response example_url
        (data_document ''NIPA'' nipa_dimensions
           [observation ''A'' ''2020'' ''12.5'', observation ''B'' ''2020'' ''(D)''])) =
       Inr (Series (CStr ''2020'') [CStr ''A'', CStr ''B''] [CStr ''12.5'', CStr ''(D)''])"
  by code_simp

text \<open>
  C5. The claim: the payload holds the number that is the raw value without separators
  times ten to the exponent, 1234000000 for \<^verbatim>\<open>"1,234"\<close> with exponent 6 and 5 for \<^verbatim>\<open>"5"\<close>
  without an exponent column. On the code: the product is computed, but then
  \<^verbatim>\<open>dict(zip(df.columns, (str, str, data_dtype)))\<close> pairs three dtypes with the two
  columns left (period and \<^verbatim>\<open>data\<close>), so \<^verbatim>\<open>astype\<close> turns the column \<^verbatim>\<open>data\<close> into
  strings: the payload holds the strings \<^verbatim>\<open>'1234000000'\<close> and \<^verbatim>\<open>'5'\<close>.
\<close>

theorem rescaled_values_end_as_strings:
  "data_of (from_response example_url
      (data_document ''NIPA'' (nipa_dimensions @ [dimension_entry ''UNIT_MULT'' ''numeric'' ''0''])
         [scaled_observation ''A'' ''2020'' ''1,234'' ''6'',
          scaled_observation ''B'' ''2020'' ''7'' ''0''])) =
     Inr (Series (CStr ''2020'') [CStr ''A'', CStr ''B''] [CStr ''1234000000'', CStr ''7''])
   \<and> data_of (from_response example_url
        (data_document ''NIPA'' nipa_dimensions
           [observation ''A'' ''2020'' ''5'', observation ''B'' ''2020'' ''6''])) =
       Inr (Series (CStr ''2020'') [CStr ''A'', CStr ''B''] [CStr ''5'', CStr ''6''])"
  by code_simp

section \<open>Results on the shape of the payload\<close>

text \<open>
  C4. The claim: observation rows with exactly one period value give a vector indexed by
  the series keys and named by the period. On the code: for a single observation row,
  \<^verbatim>\<open>squeeze\<close> gives the value itself and not a Series, \<^verbatim>\<open>rename\<close> on it raises
  AttributeError, and \<^verbatim>\<open>from_response\<close> ends with its ValueError: no payload is built.
\<close>

theorem single_observation_fails:
  "construct_data [(JStr ''DATASETNAME'', JStr ''NIPA'')]
     \<lparr>index = [CStr ''A''],
      columns = [(''TimePeriod'', [CStr ''2020'']), (''DataValue'', [CStr ''5''])]\<rparr> =
     Inl (AttributeError ''object has no attribute rename'')
   \<and> from_response example_url
        (data_document ''NIPA'' nipa_dimensions [observation ''A'' ''2020'' ''5'']) =
       Inl (ValueError (''could not create BEAResponse. url is '' @ [CHR 0x0A] @ example_url))"
  by code_simp

text \<open>
  What the two branches do give: with one period and at least two rows the vector over
  the row index, named by the period; and, through the reshaper as the specification
  describes it, a table whose rows are the distinct periods in chronological order and
  whose columns are the distinct keys in the order of their first occurrence.
\<close>

lemma squeeze_rename_vector:
  "length col \<noteq> 1 \<Longrightarrow>
   squeeze_rename \<lparr>index = idx, columns = [(c, col)]\<rparr> p = Inr (Series p idx col)"
  by (simp add: squeeze_rename_def)

lemma distinct_uniq_fold:
  "distinct acc \<Longrightarrow>
   distinct (fold (\<lambda>x acc. if x \<in> set acc then acc else acc @ [x]) xs acc)"
  by (induction xs arbitrary: acc) auto

lemma distinct_uniq: "distinct (uniq xs)"
  by (simp add: uniq_def distinct_uniq_fold)

lemma wide_table_shape:
  assumes "DataFormatter_format p_id df = Inr w"
  shows "sorted (map period_key (row_labels w))"
    and "distinct (row_labels w)"
    and "distinct (col_labels w)"
    and "frame_getitem df p_id = Inr periods \<Longrightarrow> set (row_labels w) = set periods"
    and "frame_getitem df ''index'' = Inr keys \<Longrightarrow> col_labels w = uniq keys"
  using assms
  by (auto simp: DataFormatter_format_def err_bind_Inr_iff Let_def distinct_uniq set_uniq)

end
